theory Spec2Isabelle
  imports Complex_Main "HOL-Library.AList" "HOL-Library.Sublist"
begin

section \<open>Data model\<close>

text \<open>
  Python exceptions. An exception raised inside a third-party library call (transformers,
  diffusers, torch) is \<open>ExternalError\<close>; the other constructors are the exceptions the
  module raises itself or that a Python builtin raises, with their message.
\<close>

datatype error =
    ImportError string
  | ValueError string
  | RuntimeError string
  | KeyError string
  | IndexError string
  | AttributeError string
  | ExternalError string

text \<open>
  A loaded component (tokenizer, text encoder, transformer, scheduler, ...) is an opaque
  object, named by a number. A pipeline object is a mutable Python object: a map from
  attribute name to the attribute's value, where the value \<open>None\<close> is Python's
  \<^verbatim>\<open>None\<close>. \<^verbatim>\<open>hasattr(pipe, a)\<close> is \<open>obj a \<noteq> None\<close>. Pipeline objects live in a
  store indexed by handles, so that the cache and local variables can alias one object.
\<close>

type_synonym comp = nat
type_synonym handle = nat
type_synonym pipe_obj = "string \<Rightarrow> comp option option"
type_synonym store = "handle \<Rightarrow> pipe_obj"

text \<open>One value of the \<^verbatim>\<open>MODEL_CONFIGS\<close> dictionary.\<close>

record config =
  path :: string
  guidance_scale :: real
  num_inference_steps :: int
  shift :: real
  scheduler_class :: string
  is_nf4 :: bool
  is_fp8 :: bool
  requires_bnb :: bool
  requires_gptq_deps :: bool

text \<open>
  A Python \<^verbatim>\<open>dict\<close> is an association list in insertion order.
  \<^verbatim>\<open>HiDreamSampler._model_cache\<close> maps a key to the tuple \<^verbatim>\<open>(pipe, config)\<close>; the code
  tests both components against \<^verbatim>\<open>None\<close>, so both are options.
  \<^verbatim>\<open>HiDreamSamplerAdvanced._model_cache\<close> and \<^verbatim>\<open>HiDreamImg2Img._model_cache\<close> are the same
  dictionary object, hence the single field.
\<close>

type_synonym cache_entry = "handle option \<times> config option"

record state =
  model_cache :: "(string \<times> cache_entry) list"
  objects :: store
  next_handle :: handle

text \<open>
  What the module finds in its process: the import flags computed at module load, and the
  outcome of every third-party call (\<open>Inl msg\<close>, or \<open>Some msg\<close> for a call without a
  result: the call raises). \<open>memory_allocated\<close> stands for the CUDA calls that read the memory
  in use, \<open>release_memory\<close> for the garbage collection with the CUDA calls that empty the
  cache of the device, \<open>zeros_capacity\<close> for the number of elements \<^verbatim>\<open>torch.zeros\<close> can
  allocate, and \<open>original_unload\<close> for the unload function of the host, which runs in a state
  of the module and may change it.
\<close>

datatype scheduler_variant = Plain | Karras_sigmas | Exponential_sigmas

datatype infer_outcome =
    Pipeline_raises string
  | No_images
  | Conversion_fails
  | Invalid_shape
  | Image_tensor nat

record env =
  hidream_classes_loaded :: bool
  bnb_available :: bool
  optimum_available :: bool
  gptqmodel_available :: bool
  autogptq_available :: bool
  AutoTokenizer_from_pretrained :: "string \<Rightarrow> string + comp"
  AutoModelForCausalLM_from_pretrained :: "string \<Rightarrow> string + comp"
  AutoGPTQForCausalLM_from_pretrained :: "string \<Rightarrow> string + comp"
  LlamaForCausalLM_from_pretrained :: "string \<Rightarrow> string + comp"
  HiDreamImageTransformer2DModel_from_pretrained :: "string \<Rightarrow> string + comp"
  scheduler_ctor :: "string \<Rightarrow> real \<Rightarrow> scheduler_variant \<Rightarrow> string + comp"
  HiDreamImagePipeline_from_pretrained :: "string \<Rightarrow> comp \<Rightarrow> comp \<Rightarrow> comp \<Rightarrow> string + pipe_obj"
  HiDreamImageToImagePipeline_ctor :: "comp option list \<Rightarrow> string + pipe_obj"
  preprocess_image :: "nat \<Rightarrow> nat \<Rightarrow> string + (nat \<times> nat)"
  setattr_raises :: "handle \<Rightarrow> string \<Rightarrow> bool"
  pipeline_call :: "handle \<Rightarrow> infer_outcome"
  manual_seed :: "int \<Rightarrow> string option"
  memory_allocated :: "string option"
  release_memory :: "string option"
  zeros_capacity :: int
  int_max_str_digits :: nat
  original_unload :: "state \<Rightarrow> (string + nat) \<times> state"

section \<open>Dictionary operations\<close>

definition dict_contains :: "('k \<times> 'v) list \<Rightarrow> 'k \<Rightarrow> bool" where
  "dict_contains d k = (map_of d k \<noteq> None)"

definition dict_keys :: "('k \<times> 'v) list \<Rightarrow> 'k list" where
  "dict_keys d = map fst d"

text \<open>\<^verbatim>\<open>d.pop(key)\<close> with no default: \<^verbatim>\<open>KeyError\<close> when the key is absent.\<close>

definition dict_pop :: "(string \<times> 'v) list \<Rightarrow> string \<Rightarrow> error + ('v \<times> (string \<times> 'v) list)" where
  "dict_pop d k =
     (case map_of d k of
        None \<Rightarrow> Inl (KeyError k)
      | Some v \<Rightarrow> Inr (v, AList.delete k d))"

section \<open>Cache keys\<close>

text \<open>
  \<^verbatim>\<open>f"{model_type}_{'alternate' if use_alternate_llm else 'standard'}"\<close> in
  \<^verbatim>\<open>load_models\<close>, \<^verbatim>\<open>HiDreamSampler.generate\<close> and \<^verbatim>\<open>HiDreamSamplerAdvanced.generate\<close>;
  \<^verbatim>\<open>f"{model_type}_img2img_{...}"\<close> in \<^verbatim>\<open>HiDreamImg2Img.generate\<close>.
\<close>

definition llm_tag :: "bool \<Rightarrow> string" where
  "llm_tag use_alternate_llm = (if use_alternate_llm then ''alternate'' else ''standard'')"

definition txt2img_key :: "string \<Rightarrow> bool \<Rightarrow> string" where
  "txt2img_key model_type use_alternate_llm = model_type @ ''_'' @ llm_tag use_alternate_llm"

definition img2img_key :: "string \<Rightarrow> bool \<Rightarrow> string" where
  "img2img_key model_type use_alternate_llm =
     model_type @ ''_img2img_'' @ llm_tag use_alternate_llm"

section \<open>Eviction\<close>

text \<open>
  The body of the \<^verbatim>\<open>try\<close> block after the pop: each of the four attributes that the
  object has is assigned \<^verbatim>\<open>None\<close>, in order. An assignment that raises leaves the block
  (the handler only prints), keeping the assignments already made.
\<close>

definition owned_attrs :: "string list" where
  "owned_attrs = [''transformer'', ''text_encoder_4'', ''tokenizer_4'', ''scheduler'']"

fun clear_attrs :: "env \<Rightarrow> handle \<Rightarrow> string list \<Rightarrow> store \<Rightarrow> store" where
  "clear_attrs e h [] st = st"
| "clear_attrs e h (a # as) st =
     (if st h a = None then clear_attrs e h as st
      else if setattr_raises e h a then st
      else clear_attrs e h as (st(h := (st h)(a \<mapsto> None))))"

text \<open>
  One iteration of \<^verbatim>\<open>for key in keys_to_del\<close>: the entry is popped first; a
  \<^verbatim>\<open>KeyError\<close> of the pop is caught like every other exception of the block.
\<close>

definition remove_key :: "env \<Rightarrow> string \<Rightarrow> state \<Rightarrow> state" where
  "remove_key e key s =
     (case dict_pop (model_cache s) key of
        Inl err \<Rightarrow> s
      | Inr ((pipe_to_del, uu), cache') \<Rightarrow>
          (case pipe_to_del of
             None \<Rightarrow> s\<lparr>model_cache := cache'\<rparr>
           | Some h \<Rightarrow> s\<lparr>model_cache := cache', objects := clear_attrs e h owned_attrs (objects s)\<rparr>))"

fun remove_keys :: "env \<Rightarrow> string list \<Rightarrow> state \<Rightarrow> state" where
  "remove_keys e [] s = s"
| "remove_keys e (key # keys) s = remove_keys e keys (remove_key e key s)"

text \<open>
  \<^verbatim>\<open>HiDreamSampler.cleanup_models\<close>, also bound as \<^verbatim>\<open>cleanup_models\<close> of the two other
  node classes. The garbage collection and the CUDA calls do not touch the dictionary.
  It returns \<^verbatim>\<open>True\<close>.
\<close>

definition cleanup_models :: "env \<Rightarrow> state \<Rightarrow> bool \<times> state" where
  "cleanup_models e s = (True, remove_keys e (dict_keys (model_cache s)) s)"

text \<open>
  The block \<^verbatim>\<open>if self._model_cache: ... print("Cache cleared.")\<close> that the three
  \<^verbatim>\<open>generate\<close> methods run before loading.
\<close>

definition clear_all_cache :: "env \<Rightarrow> state \<Rightarrow> state" where
  "clear_all_cache e s =
     (if model_cache s \<noteq> [] then remove_keys e (dict_keys (model_cache s)) s else s)"

text \<open>\<^verbatim>\<open>getattr(obj, a, None)\<close>: the attribute is absent or \<^verbatim>\<open>None\<close>.\<close>

definition attr_is_null :: "pipe_obj \<Rightarrow> string \<Rightarrow> bool" where
  "attr_is_null obj a = (case obj a of None \<Rightarrow> True | Some v \<Rightarrow> v = None)"


section \<open>Python strings\<close>

text \<open>
  A Python string is the list of its code points, one \<open>char\<close> each; the model covers the
  strings whose code points are below 256. Every literal of the module is one of them: the
  multiplication sign U+00D7 of the option labels is \<open>CHR 0xD7\<close>.
\<close>

definition times_sign :: char where
  "times_sign = CHR 0xD7"

definition quote :: string where
  "quote = [CHR 0x27]"

text \<open>
  \<^verbatim>\<open>s.split(sep)\<close> for a separator that is not empty: the occurrences of \<open>sep\<close> are found
  from the left and do not overlap.
\<close>

function (sequential) py_split :: "string \<Rightarrow> string \<Rightarrow> string list" where
  "py_split sep [] = [[]]"
| "py_split sep (c # cs) =
     (if sep \<noteq> [] \<and> prefix sep (c # cs) then [] # py_split sep (drop (length sep) (c # cs))
      else (case py_split sep cs of [] \<Rightarrow> [[c]] | p # ps \<Rightarrow> (c # p) # ps))"
  by pat_completeness auto
termination
  by (relation "measure (\<lambda>(sep, s). length s)") auto

text \<open>\<^verbatim>\<open>sub in s\<close>.\<close>

fun py_contains :: "string \<Rightarrow> string \<Rightarrow> bool" where
  "py_contains sub [] = (sub = [])"
| "py_contains sub (c # cs) = (prefix sub (c # cs) \<or> py_contains sub cs)"



text \<open>\<^verbatim>\<open>s.replace('x', '\<times>')\<close>.\<close>

definition replace_x :: "string \<Rightarrow> string" where
  "replace_x s = map (\<lambda>c. if c = CHR ''x'' then times_sign else c) s"

text \<open>
  \<^verbatim>\<open>int(s)\<close> in base 10; \<open>None\<close> is \<^verbatim>\<open>ValueError\<close>. The literal is: white space, an optional
  sign, decimal digits with single underscores between them, white space. Here white space
  is what the integer parser skips (9 to 13 and 32, and 133 and 160, which the conversion
  of a string to the parser's input turns into spaces); a character 28 to 31 is refused.
  \<open>maxd\<close> is \<^verbatim>\<open>sys.get_int_max_str_digits()\<close> (0: no limit, as before Python 3.11): a literal
  of more than 640 digits and more than \<open>maxd\<close> digits is refused.
\<close>

definition int_space :: "char \<Rightarrow> bool" where
  "int_space c = ((of_char c :: nat) \<in> {9, 10, 11, 12, 13, 32, 133, 160})"

definition is_digit :: "char \<Rightarrow> bool" where
  "is_digit c = (48 \<le> (of_char c :: nat) \<and> (of_char c :: nat) \<le> 57)"

definition digit_or_underscore :: "char \<Rightarrow> bool" where
  "digit_or_underscore c = (is_digit c \<or> c = CHR ''_'')"

definition decimal :: "string \<Rightarrow> nat" where
  "decimal ds = foldl (\<lambda>a c. 10 * a + (of_char c - 48)) 0 ds"

definition valid_int_body :: "string \<Rightarrow> bool" where
  "valid_int_body b =
     (b \<noteq> [] \<and> hd b \<noteq> CHR ''_'' \<and> last b \<noteq> CHR ''_'' \<and> \<not> py_contains ''__'' b)"

definition py_int :: "nat \<Rightarrow> string \<Rightarrow> int option" where
  "py_int maxd s =
     (let s1 = dropWhile int_space s;
          neg = (s1 \<noteq> [] \<and> hd s1 = CHR ''-'');
          s2 = (if s1 \<noteq> [] \<and> (hd s1 = CHR ''+'' \<or> hd s1 = CHR ''-'') then tl s1 else s1);
          body = takeWhile digit_or_underscore s2;
          rest = dropWhile digit_or_underscore s2;
          ds = filter is_digit body
      in if \<not> valid_int_body body then None
         else if \<not> list_all int_space rest then None
         else if maxd \<noteq> 0 \<and> 640 < length ds \<and> maxd < length ds then None
         else Some ((if neg then - 1 else 1) * int (decimal ds)))"

section \<open>Resolution parsers\<close>



text \<open>
  \<^verbatim>\<open>dims_part = s.split("(")[1].split(")")[0]\<close>, then the unpacking
  \<^verbatim>\<open>width, height = dims_part.split("\<times>")\<close> and the two \<^verbatim>\<open>int\<close> calls: shared by
  \<^verbatim>\<open>HiDreamSampler.parse_aspect_ratio\<close> and \<^verbatim>\<open>HiDreamSamplerAdvanced.parse_dimensions\<close>.
\<close>

definition parse_parenthesised :: "nat \<Rightarrow> string \<Rightarrow> error + (int \<times> int)" where
  "parse_parenthesised maxd aspect_ratio_str =
     (case py_split ''('' aspect_ratio_str of
        u0 # part1 # u1 \<Rightarrow>
          (case py_split '')'' part1 of
             [] \<Rightarrow> Inl (IndexError ''list index out of range'')
           | dims_part # u2 \<Rightarrow>
               (case py_split [times_sign] dims_part of
                  [width, height] \<Rightarrow>
                    (case py_int maxd width of
                       None \<Rightarrow> Inl (ValueError ''invalid literal for int()'')
                     | Some w \<Rightarrow>
                         (case py_int maxd height of
                            None \<Rightarrow> Inl (ValueError ''invalid literal for int()'')
                          | Some h \<Rightarrow> Inr (w, h)))
                | u3 \<Rightarrow> Inl (ValueError ''wrong number of values to unpack'')))
      | u4 \<Rightarrow> Inl (IndexError ''list index out of range''))"

definition parse_aspect_ratio :: "nat \<Rightarrow> string \<Rightarrow> int \<times> int" where
  "parse_aspect_ratio maxd aspect_ratio_str =
     (case parse_parenthesised maxd aspect_ratio_str of
        Inr r \<Rightarrow> r
      | Inl err \<Rightarrow> (1024, 1024))"

definition parse_dimensions_try :: "nat \<Rightarrow> string \<Rightarrow> error + (int \<times> int)" where
  "parse_dimensions_try maxd aspect_ratio_str =
     (if py_contains ''Square Reso'' aspect_ratio_str then Inr (1024, 1024)
      else parse_parenthesised maxd aspect_ratio_str)"

definition parse_dimensions :: "nat \<Rightarrow> string \<Rightarrow> int \<times> int" where
  "parse_dimensions maxd aspect_ratio_str =
     (case parse_dimensions_try maxd aspect_ratio_str of
        Inr r \<Rightarrow> r
      | Inl err \<Rightarrow> (1024, 1024))"


section \<open>Resolution presets\<close>

text \<open>\<^verbatim>\<open>HiDreamResolutionSelect._RESOLUTION_PRESETS\<close>; \<open>None\<close> marks the custom square.\<close>

definition RESOLUTION_PRESETS :: "(string \<times> (int \<times> int) option) list" where
  "RESOLUTION_PRESETS =
     [(''1:1 (Square Reso)'', Some (1024, 1024)),
      (''1:2 Tablet (704 x 1408)'', Some (704, 1408)),
      (''2:1 Rectangle (1408 x 704)'', Some (1408, 704)),
      (''2:3 Portrait (704 x 1344)'', Some (704, 1344)),
      (''3:2 Landscape (1344 x 704)'', Some (1344, 704)),
      (''12:25 Poster (704 x 1472)'', Some (704, 1472)),
      (''25:12 Banner (1472 x 704)'', Some (1472, 704)),
      (''4:5 Classic (896 x 1120)'', Some (896, 1120)),
      (''5:4 Classic (1120 x 896)'', Some (1120, 896)),
      (''9:16 Portrait (768 x 1344)'', Some (768, 1344)),
      (''16:9 Widescreen (1344 x 768)'', Some (1344, 768)),
      (''1:3 Vertical Poster (576 x 1728)'', Some (576, 1728)),
      (''3:1 Panoramic (1728 x 576)'', Some (1728, 576)),
      (''1:4 Ultrawide (512 x 2048)'', Some (512, 2048)),
      (''4:1 Banner (2048 x 512)'', Some (2048, 512)),
      (''Custom Square'', None)]"

text \<open>
  \<^verbatim>\<open>HiDreamResolutionSelect.get_resolution\<close>: \<^verbatim>\<open>.get\<close> gives \<^verbatim>\<open>None\<close> for a missing key
  too, and \<^verbatim>\<open>if dimensions:\<close> holds for every stored pair.
\<close>

definition get_resolution :: "string \<Rightarrow> int \<Rightarrow> int \<times> int" where
  "get_resolution resolution_preset custom_square_size =
     (if resolution_preset = ''Custom Square'' then (custom_square_size, custom_square_size)
      else (case map_of RESOLUTION_PRESETS resolution_preset of
              Some (Some (width, height)) \<Rightarrow> (width, height)
            | uu \<Rightarrow> (1024, 1024)))"

section \<open>Model configurations\<close>

definition MODEL_CONFIGS_all :: "(string \<times> config) list" where
  "MODEL_CONFIGS_all =
     [(''full-nf4'', \<lparr>path = ''azaneko/HiDream-I1-Full-nf4'', guidance_scale = 5,
         num_inference_steps = 50, shift = 3, scheduler_class = ''FlowUniPCMultistepScheduler'',
         is_nf4 = True, is_fp8 = False, requires_bnb = False, requires_gptq_deps = True\<rparr>),
      (''dev-nf4'', \<lparr>path = ''azaneko/HiDream-I1-Dev-nf4'', guidance_scale = 0,
         num_inference_steps = 28, shift = 6,
         scheduler_class = ''FlashFlowMatchEulerDiscreteScheduler'',
         is_nf4 = True, is_fp8 = False, requires_bnb = False, requires_gptq_deps = True\<rparr>),
      (''fast-nf4'', \<lparr>path = ''azaneko/HiDream-I1-Fast-nf4'', guidance_scale = 0,
         num_inference_steps = 16, shift = 3,
         scheduler_class = ''FlashFlowMatchEulerDiscreteScheduler'',
         is_nf4 = True, is_fp8 = False, requires_bnb = False, requires_gptq_deps = True\<rparr>),
      (''full'', \<lparr>path = ''HiDream-ai/HiDream-I1-Full'', guidance_scale = 5,
         num_inference_steps = 50, shift = 3, scheduler_class = ''FlowUniPCMultistepScheduler'',
         is_nf4 = False, is_fp8 = False, requires_bnb = True, requires_gptq_deps = False\<rparr>),
      (''dev'', \<lparr>path = ''HiDream-ai/HiDream-I1-Dev'', guidance_scale = 0,
         num_inference_steps = 28, shift = 6,
         scheduler_class = ''FlashFlowMatchEulerDiscreteScheduler'',
         is_nf4 = False, is_fp8 = False, requires_bnb = True, requires_gptq_deps = False\<rparr>),
      (''fast'', \<lparr>path = ''HiDream-ai/HiDream-I1-Fast'', guidance_scale = 0,
         num_inference_steps = 16, shift = 3,
         scheduler_class = ''FlashFlowMatchEulerDiscreteScheduler'',
         is_nf4 = False, is_fp8 = False, requires_bnb = True, requires_gptq_deps = False\<rparr>)]"

definition gptq_support_available :: "env \<Rightarrow> bool" where
  "gptq_support_available e = (gptqmodel_available e \<or> autogptq_available e)"

text \<open>The dictionary after the module has filtered it by the dependencies it found.\<close>

definition MODEL_CONFIGS :: "env \<Rightarrow> (string \<times> config) list" where
  "MODEL_CONFIGS e =
     (let c1 = (if \<not> bnb_available e
                then filter (\<lambda>(k, v). \<not> requires_bnb v) MODEL_CONFIGS_all
                else MODEL_CONFIGS_all);
          c2 = (if \<not> optimum_available e \<or> \<not> gptq_support_available e
                then filter (\<lambda>(k, v). \<not> requires_gptq_deps v) c1
                else c1)
      in if \<not> hidream_classes_loaded e then [] else c2)"

definition available_schedulers :: "env \<Rightarrow> string list" where
  "available_schedulers e =
     (if hidream_classes_loaded e
      then [''FlowUniPCMultistepScheduler'', ''FlashFlowMatchEulerDiscreteScheduler'']
      else [])"

text \<open>An exception of a third-party call, as the module sees it.\<close>

definition external :: "string + 'a \<Rightarrow> error + 'a" where
  "external r = (case r of Inl msg \<Rightarrow> Inl (ExternalError msg) | Inr v \<Rightarrow> Inr v)"

definition get_scheduler_instance :: "env \<Rightarrow> string \<Rightarrow> real \<Rightarrow> error + comp" where
  "get_scheduler_instance e scheduler_name shift_value =
     (if available_schedulers e = [] then Inl (RuntimeError ''No schedulers available...'')
      else if scheduler_name \<notin> set (available_schedulers e)
      then Inl (ValueError (''Scheduler class '' @ quote @ scheduler_name @ quote @ '' not found...''))
      else external (scheduler_ctor e scheduler_name shift_value Plain))"

section \<open>The loader\<close>

definition llama_model_name :: "bool \<Rightarrow> bool \<Rightarrow> string" where
  "llama_model_name nf4 use_alternate_llm =
     (if nf4
      then (if use_alternate_llm then ''akhbar/Meta-Llama-3.1-8B-Instruct-abliterated-GPTQ''
            else ''hugging-quants/Meta-Llama-3.1-8B-Instruct-GPTQ-INT4'')
      else (if use_alternate_llm then ''akhbar/Meta-Llama-3.1-8B-Instruct-abliterated-GPTQ''
            else ''nvidia/Llama-3.1-Nemotron-Nano-8B-v1''))"

text \<open>
  Step 1c of \<^verbatim>\<open>load_models\<close>: the text encoder, through the GPTQ backend that was found
  for an NF4 model. The result stands for the loaded model after its move to the device.
\<close>

definition load_text_encoder :: "env \<Rightarrow> bool \<Rightarrow> string \<Rightarrow> error + comp" where
  "load_text_encoder e nf4 name =
     (if nf4
      then (if gptqmodel_available e then external (AutoModelForCausalLM_from_pretrained e name)
            else if autogptq_available e then external (AutoGPTQForCausalLM_from_pretrained e name)
            else Inl (ImportError
              ''No supported GPTQModel backend for INT4/NF4 (need transformers.GPTQConfig or auto_gptq).''))
      else external (LlamaForCausalLM_from_pretrained e name))"

text \<open>
  Steps 1 to 5 of \<^verbatim>\<open>load_models\<close>, after the cache check: the first call that raises
  ends the load. \<^verbatim>\<open>bnb_llm_config\<close> and \<^verbatim>\<open>bnb_transformer_4bit_config\<close> are objects when
  \<^verbatim>\<open>bnb_available\<close> and \<^verbatim>\<open>None\<close> otherwise. The final move of the pipeline to the device and
  the CPU offload are inside \<^verbatim>\<open>try\<close> blocks that only print.
\<close>

definition load_pipeline :: "env \<Rightarrow> config \<Rightarrow> bool \<Rightarrow> error + pipe_obj" where
  "load_pipeline e cfg use_alternate_llm =
     (let name = llama_model_name (is_nf4 cfg) use_alternate_llm in
      if \<not> is_nf4 cfg \<and> \<not> bnb_available e
      then Inl (ImportError ''BNB config required for standard LLM.'')
      else (case external (AutoTokenizer_from_pretrained e name) of
        Inl err \<Rightarrow> Inl err
      | Inr tokenizer \<Rightarrow>
        (case load_text_encoder e (is_nf4 cfg) name of
           Inl err \<Rightarrow> Inl err
         | Inr text_encoder \<Rightarrow>
           (if \<not> is_nf4 cfg \<and> \<not> bnb_available e
            then Inl (ImportError ''BNB config required for transformer but unavailable.'')
            else (case external (HiDreamImageTransformer2DModel_from_pretrained e (path cfg)) of
              Inl err \<Rightarrow> Inl err
            | Inr transformer \<Rightarrow>
              (case get_scheduler_instance e (scheduler_class cfg) (shift cfg) of
                 Inl err \<Rightarrow> Inl err
               | Inr sched \<Rightarrow>
                 (case external (HiDreamImagePipeline_from_pretrained e (path cfg)
                                   sched tokenizer text_encoder) of
                    Inl err \<Rightarrow> Inl err
                  | Inr pipe \<Rightarrow> Inr (pipe(''transformer'' \<mapsto> Some transformer)))))))))"

text \<open>
  \<^verbatim>\<open>pipe is not None and hasattr(pipe, 'transformer') and pipe.transformer is not None\<close>.
\<close>

definition has_transformer :: "pipe_obj \<Rightarrow> bool" where
  "has_transformer obj = (case obj ''transformer'' of Some (Some t) \<Rightarrow> True | uu \<Rightarrow> False)"

definition valid_pipe :: "store \<Rightarrow> handle option \<Rightarrow> bool" where
  "valid_pipe st pipe = (case pipe of None \<Rightarrow> False | Some h \<Rightarrow> has_transformer (st h))"

text \<open>The cache check of \<^verbatim>\<open>load_models\<close>: an invalid entry is popped.\<close>

definition loader_cache_check :: "string \<Rightarrow> state \<Rightarrow> handle option \<times> state" where
  "loader_cache_check cache_key s =
     (case map_of (model_cache s) cache_key of
        None \<Rightarrow> (None, s)
      | Some (pipe, stored_config) \<Rightarrow>
          (if valid_pipe (objects s) pipe then (pipe, s)
           else (None, s\<lparr>model_cache := AList.delete cache_key (model_cache s)\<rparr>)))"

text \<open>A new Python object.\<close>

definition alloc :: "pipe_obj \<Rightarrow> state \<Rightarrow> handle \<times> state" where
  "alloc obj s =
     (next_handle s, s\<lparr>objects := (objects s)(next_handle s := obj),
                        next_handle := Suc (next_handle s)\<rparr>)"

text \<open>
  \<^verbatim>\<open>load_models(model_type, use_alternate_llm)\<close>. On a cache hit it returns the cached
  pipeline with \<^verbatim>\<open>MODEL_CONFIGS[model_type]\<close>; it never writes the cache itself.
\<close>

definition load_models :: "env \<Rightarrow> string \<Rightarrow> bool \<Rightarrow> state \<Rightarrow> (error + (handle \<times> config)) \<times> state" where
  "load_models e model_type use_alternate_llm s =
     (if \<not> hidream_classes_loaded e
      then (Inl (ImportError ''Cannot load models: HiDream classes failed to import.''), s)
      else (case map_of (MODEL_CONFIGS e) model_type of
        None \<Rightarrow> (Inl (ValueError (''Unknown or incompatible model_type: '' @ model_type)), s)
      | Some cfg \<Rightarrow>
          (if requires_bnb cfg \<and> \<not> bnb_available e
           then (Inl (ImportError (''Model '' @ quote @ model_type @ quote
                                     @ '' requires BitsAndBytes...'')), s)
           else if requires_gptq_deps cfg
                   \<and> (\<not> optimum_available e \<or> \<not> gptq_support_available e)
           then (Inl (ImportError (''Model '' @ quote @ model_type @ quote
                                     @ '' requires Optimum & GPTQ support...'')), s)
           else (case loader_cache_check (txt2img_key model_type use_alternate_llm) s of
                   (Some pipe, s1) \<Rightarrow> (Inr (pipe, cfg), s1)
                 | (None, s1) \<Rightarrow>
                     (case load_pipeline e cfg use_alternate_llm of
                        Inl err \<Rightarrow> (Inl err, s1)
                      | Inr obj \<Rightarrow>
                          (case alloc obj s1 of (pipe, s2) \<Rightarrow> (Inr (pipe, cfg), s2)))))))"

section \<open>The nodes\<close>

datatype image = Zeros int int int int | Generated nat

text \<open>
  \<^verbatim>\<open>torch.zeros((n, h, w, c))\<close>: it raises for a negative dimension, and for a tensor of more
  elements than the process can allocate (\<open>zeros_capacity\<close>).
\<close>

definition zeros :: "env \<Rightarrow> int \<Rightarrow> int \<Rightarrow> int \<Rightarrow> int \<Rightarrow> error + image" where
  "zeros e n h w c =
     (if n < 0 \<or> h < 0 \<or> w < 0 \<or> c < 0
      then Inl (RuntimeError ''Trying to create tensor with negative dimension'')
      else if zeros_capacity e < n * h * w * c
      then Inl (RuntimeError ''not enough memory'')
      else Inr (Zeros n h w c))"

text \<open>
  \<^verbatim>\<open>if torch.cuda.is_available(): initial_mem = torch.cuda.memory_allocated() ...\<close> at the
  head of the \<^verbatim>\<open>generate\<close> methods, and the three \<^verbatim>\<open>gc.collect()\<close> passes with
  \<^verbatim>\<open>torch.cuda.empty_cache()\<close> and \<^verbatim>\<open>torch.cuda.synchronize()\<close> that follow an eviction loop.
  Both are outside every \<^verbatim>\<open>try\<close>: \<open>Some err\<close> is the exception that leaves the method.
\<close>

definition log_memory :: "env \<Rightarrow> error option" where
  "log_memory e = map_option ExternalError (memory_allocated e)"

definition collect_garbage :: "env \<Rightarrow> error option" where
  "collect_garbage e = map_option ExternalError (release_memory e)"

text \<open>
  The cache check at the head of the three \<^verbatim>\<open>generate\<close> methods: it yields the local
  variables \<^verbatim>\<open>pipe, config\<close>, and deletes an entry it finds invalid.
\<close>

definition cache_check :: "string \<Rightarrow> state \<Rightarrow> cache_entry \<times> state" where
  "cache_check cache_key s =
     (case map_of (model_cache s) cache_key of
        None \<Rightarrow> ((None, None), s)
      | Some (pipe, cfg) \<Rightarrow>
          (if pipe = None \<or> cfg = None \<or> \<not> valid_pipe (objects s) pipe
           then ((None, None), s\<lparr>model_cache := AList.delete cache_key (model_cache s)\<rparr>)
           else ((pipe, cfg), s)))"

text \<open>
  What a part of a method does: it raises, it makes the method return an image, or it hands
  a value to the code that follows.
\<close>

datatype 'a step = Raises error | Returns image | Continues 'a

text \<open>\<^verbatim>\<open>return (torch.zeros((1, h, w, 3)),)\<close>.\<close>

definition return_blank :: "env \<Rightarrow> int \<Rightarrow> int \<Rightarrow> 'a step" where
  "return_blank e h w = (case zeros e 1 h w 3 of Inl err \<Rightarrow> Raises err | Inr img \<Rightarrow> Returns img)"

text \<open>
  The block \<^verbatim>\<open>if self._model_cache: ... print("Cache cleared.")\<close> of the three methods:
  the eviction loop as in \<^verbatim>\<open>cleanup_models\<close>, then the garbage collection.
\<close>

definition clear_cache_before_load :: "env \<Rightarrow> state \<Rightarrow> error option \<times> state" where
  "clear_cache_before_load e s =
     (if model_cache s \<noteq> [] then (collect_garbage e, clear_all_cache e s) else (None, s))"

text \<open>
  \<^verbatim>\<open>if pipe is None: ...\<close> of \<^verbatim>\<open>HiDreamSampler.generate\<close> and
  \<^verbatim>\<open>HiDreamSamplerAdvanced.generate\<close>, with the test \<^verbatim>\<open>if pipe is None or config is None\<close>
  that follows it. An exception of \<^verbatim>\<open>load_models\<close> is caught, and the handler returns a
  blank image.
\<close>

definition load_and_cache :: "env \<Rightarrow> string \<Rightarrow> bool \<Rightarrow> string \<Rightarrow> cache_entry \<Rightarrow> state
     \<Rightarrow> (handle \<times> config) step \<times> state" where
  "load_and_cache e model_type use_alternate_llm cache_key found s =
     (case found of
        (Some pipe, Some cfg) \<Rightarrow> (Continues (pipe, cfg), s)
      | (Some pipe, None) \<Rightarrow> (return_blank e 512 512, s)
      | (None, uu) \<Rightarrow>
          (case clear_cache_before_load e s of
             (Some err, s0) \<Rightarrow> (Raises err, s0)
           | (None, s0) \<Rightarrow>
               (case load_models e model_type use_alternate_llm s0 of
                  (Inl err, s1) \<Rightarrow> (return_blank e 512 512, s1)
                | (Inr (pipe, cfg), s1) \<Rightarrow>
                    (Continues (pipe, cfg),
                     s1\<lparr>model_cache :=
                          AList.update cache_key (Some pipe, Some cfg) (model_cache s1)\<rparr>))))"

definition set_scheduler :: "handle \<Rightarrow> comp \<Rightarrow> state \<Rightarrow> state" where
  "set_scheduler pipe c s =
     s\<lparr>objects := (objects s)(pipe := (objects s pipe)(''scheduler'' \<mapsto> Some c))\<rparr>"

definition install_scheduler :: "handle \<Rightarrow> string + comp \<Rightarrow> state \<Rightarrow> error option \<times> state" where
  "install_scheduler pipe r s =
     (case r of
        Inl msg \<Rightarrow> (Some (ExternalError msg), s)
      | Inr c \<Rightarrow> (None, set_scheduler pipe c s))"

text \<open>
  The scheduler replacement of the three methods. \<open>Some err\<close>: the exception leaves the
  method, for this code is outside every \<^verbatim>\<open>try\<close>.
\<close>

definition update_scheduler :: "env \<Rightarrow> string \<Rightarrow> string \<Rightarrow> real \<Rightarrow> handle \<Rightarrow> state
     \<Rightarrow> error option \<times> state" where
  "update_scheduler e sched original_scheduler_class original_shift pipe s =
     (if sched \<noteq> ''Default for model'' then
        (if sched = ''UniPC''
         then install_scheduler pipe
                (scheduler_ctor e ''FlowUniPCMultistepScheduler'' original_shift Plain) s
         else if sched = ''Euler''
         then install_scheduler pipe
                (scheduler_ctor e ''FlashFlowMatchEulerDiscreteScheduler'' original_shift Plain) s
         else if sched = ''Karras Euler''
         then install_scheduler pipe
                (scheduler_ctor e ''FlashFlowMatchEulerDiscreteScheduler'' original_shift Karras_sigmas) s
         else if sched = ''Karras Exponential''
         then install_scheduler pipe
                (scheduler_ctor e ''FlashFlowMatchEulerDiscreteScheduler'' original_shift
                   Exponential_sigmas) s
         else (None, s))
      else (case get_scheduler_instance e original_scheduler_class original_shift of
              Inl err \<Rightarrow> (Some err, s)
            | Inr c \<Rightarrow> (None, set_scheduler pipe c s)))"

text \<open>
  The pipeline call and the handling of its output: every failure there is caught, and the
  handler returns a blank image of the requested size, which \<^verbatim>\<open>torch.zeros\<close> may refuse.
  None of it reads or writes the cache.
\<close>

definition run_pipeline :: "env \<Rightarrow> handle \<Rightarrow> int \<Rightarrow> int \<Rightarrow> error + image" where
  "run_pipeline e pipe height width =
     (case pipeline_call e pipe of
        Image_tensor t \<Rightarrow> Inr (Generated t)
      | uu \<Rightarrow> zeros e 1 height width 3)"

text \<open>
  The end of the three methods, from the scheduler replacement on: the generator is seeded
  outside every \<^verbatim>\<open>try\<close> (\<^verbatim>\<open>torch.Generator(device=...).manual_seed(seed)\<close>), then the
  pipeline runs.
\<close>

definition sample :: "env \<Rightarrow> string \<Rightarrow> string \<Rightarrow> real \<Rightarrow> handle \<Rightarrow> int \<Rightarrow> int \<Rightarrow> int
     \<Rightarrow> state \<Rightarrow> (error + image) \<times> state" where
  "sample e sched original_scheduler_class original_shift pipe seed height width s =
     (case update_scheduler e sched original_scheduler_class original_shift pipe s of
        (Some err, s1) \<Rightarrow> (Inl err, s1)
      | (None, s1) \<Rightarrow>
          (case manual_seed e seed of
             Some msg \<Rightarrow> (Inl (ExternalError msg), s1)
           | None \<Rightarrow> (run_pipeline e pipe height width, s1)))"

text \<open>
  \<^verbatim>\<open>HiDreamSampler.generate\<close>; \<open>Inl\<close> is an exception that leaves the method. The prompts
  and the step and guidance overrides only reach the pipeline call. After the pipeline is in
  hand the method calls \<^verbatim>\<open>load_models\<close> once more, outside the \<^verbatim>\<open>try\<close>, for the
  scheduler's class name.
\<close>

definition HiDreamSampler_generate :: "env \<Rightarrow> string \<Rightarrow> string \<Rightarrow> int \<Rightarrow> string \<Rightarrow> bool
     \<Rightarrow> state \<Rightarrow> (error + image) \<times> state" where
  "HiDreamSampler_generate e model_type aspect_ratio seed sched use_alternate_llm s =
     (case parse_aspect_ratio (int_max_str_digits e) aspect_ratio of (w0, h0) \<Rightarrow>
      (let width = (w0 div 64) * 64; height = (h0 div 64) * 64 in
       case log_memory e of
         Some err \<Rightarrow> (Inl err, s)
       | None \<Rightarrow>
       if MODEL_CONFIGS e = [] \<or> model_type = ''error'' then (zeros e 1 512 512 3, s)
       else (let cache_key = txt2img_key model_type use_alternate_llm in
         case cache_check cache_key s of (found, s1) \<Rightarrow>
         (case load_and_cache e model_type use_alternate_llm cache_key found s1 of
            (Raises err, s2) \<Rightarrow> (Inl err, s2)
          | (Returns img, s2) \<Rightarrow> (Inr img, s2)
          | (Continues (pipe, cfg), s2) \<Rightarrow>
              (case load_models e model_type use_alternate_llm s2 of
                 (Inl err, s3) \<Rightarrow> (Inl err, s3)
               | (Inr (txt2img_pipe, model_config), s3) \<Rightarrow>
                   sample e sched (scheduler_class model_config) (shift cfg) pipe seed
                     height width s3)))))"

text \<open>\<^verbatim>\<open>HiDreamSamplerAdvanced.generate\<close>.\<close>

definition HiDreamSamplerAdvanced_generate :: "env \<Rightarrow> string \<Rightarrow> string \<Rightarrow> int \<Rightarrow> string \<Rightarrow> bool
     \<Rightarrow> int \<Rightarrow> int \<Rightarrow> int \<Rightarrow> state \<Rightarrow> (error + image) \<times> state" where
  "HiDreamSamplerAdvanced_generate e model_type aspect_ratio seed sched use_alternate_llm
       square_resolution custom_width custom_height s =
     (case (if py_contains ''Square Reso'' aspect_ratio then (square_resolution, square_resolution)
            else if aspect_ratio = ''Custom'' then (custom_width, custom_height)
            else parse_dimensions (int_max_str_digits e) aspect_ratio) of (w0, h0) \<Rightarrow>
      (let width = (w0 div 64) * 64; height = (h0 div 64) * 64 in
       case log_memory e of
         Some err \<Rightarrow> (Inl err, s)
       | None \<Rightarrow>
       if MODEL_CONFIGS e = [] \<or> model_type = ''error'' then (zeros e 1 512 512 3, s)
       else (let cache_key = txt2img_key model_type use_alternate_llm in
         case cache_check cache_key s of (found, s1) \<Rightarrow>
         (case load_and_cache e model_type use_alternate_llm cache_key found s1 of
            (Raises err, s2) \<Rightarrow> (Inl err, s2)
          | (Returns img, s2) \<Rightarrow> (Inr img, s2)
          | (Continues (pipe, cfg), s2) \<Rightarrow>
              sample e sched (scheduler_class cfg) (shift cfg) pipe seed height width s2))))"

text \<open>
  The image-to-image pipeline is built from the attributes of the text-to-image one; reading
  an attribute the object lacks raises \<^verbatim>\<open>AttributeError\<close>.
\<close>

definition img2img_args :: "string list" where
  "img2img_args = [''scheduler'', ''vae'', ''text_encoder'', ''tokenizer'', ''text_encoder_2'',
     ''tokenizer_2'', ''text_encoder_3'', ''tokenizer_3'', ''text_encoder_4'', ''tokenizer_4'']"

fun read_attrs :: "pipe_obj \<Rightarrow> string list \<Rightarrow> error + comp option list" where
  "read_attrs obj [] = Inr []"
| "read_attrs obj (a # as) =
     (case obj a of
        None \<Rightarrow> Inl (AttributeError a)
      | Some v \<Rightarrow> (case read_attrs obj as of Inl err \<Rightarrow> Inl err | Inr vs \<Rightarrow> Inr (v # vs)))"

definition make_img2img :: "env \<Rightarrow> pipe_obj \<Rightarrow> error + pipe_obj" where
  "make_img2img e txt2img =
     (case read_attrs txt2img img2img_args of
        Inl err \<Rightarrow> Inl err
      | Inr vs \<Rightarrow>
          (case external (HiDreamImageToImagePipeline_ctor e vs) of
             Inl err \<Rightarrow> Inl err
           | Inr pipe \<Rightarrow>
               (case txt2img ''transformer'' of
                  None \<Rightarrow> Inl (AttributeError ''transformer'')
                | Some t \<Rightarrow> Inr (pipe(''transformer'' \<mapsto> t)))))"

definition load_and_cache_img2img :: "env \<Rightarrow> string \<Rightarrow> bool \<Rightarrow> string \<Rightarrow> cache_entry \<Rightarrow> state
     \<Rightarrow> (handle \<times> config) step \<times> state" where
  "load_and_cache_img2img e model_type use_alternate_llm cache_key found s =
     (case found of
        (Some pipe, Some cfg) \<Rightarrow> (Continues (pipe, cfg), s)
      | (Some pipe, None) \<Rightarrow> (return_blank e 512 512, s)
      | (None, uu) \<Rightarrow>
          (case clear_cache_before_load e s of
             (Some err, s0) \<Rightarrow> (Raises err, s0)
           | (None, s0) \<Rightarrow>
               (case load_models e model_type use_alternate_llm s0 of
                  (Inl err, s1) \<Rightarrow> (return_blank e 512 512, s1)
                | (Inr (txt2img_pipe, cfg), s1) \<Rightarrow>
                    (case make_img2img e (objects s1 txt2img_pipe) of
                       Inl err \<Rightarrow> (return_blank e 512 512, s1)
                     | Inr obj \<Rightarrow>
                         (case alloc obj s1 of (pipe, s2) \<Rightarrow>
                            (Continues (pipe, cfg),
                             s2\<lparr>model_cache :=
                                  AList.update cache_key (Some pipe, Some cfg)
                                    (model_cache s2)\<rparr>))))))"

text \<open>
  \<^verbatim>\<open>HiDreamImg2Img.generate\<close>, for an input image of \<open>image_h\<close> by \<open>image_w\<close> pixels. The
  image is preprocessed first, outside every \<^verbatim>\<open>try\<close>; a blank image has the size of the
  input image.
\<close>

definition HiDreamImg2Img_generate :: "env \<Rightarrow> string \<Rightarrow> nat \<Rightarrow> nat \<Rightarrow> int \<Rightarrow> string \<Rightarrow> bool
     \<Rightarrow> state \<Rightarrow> (error + image) \<times> state" where
  "HiDreamImg2Img_generate e model_type image_h image_w seed sched use_alternate_llm s =
     (case external (preprocess_image e image_h image_w) of
        Inl err \<Rightarrow> (Inl err, s)
      | Inr (height, width) \<Rightarrow>
       (case log_memory e of
         Some err \<Rightarrow> (Inl err, s)
       | None \<Rightarrow>
       if MODEL_CONFIGS e = [] \<or> model_type = ''error'' then (zeros e 1 512 512 3, s)
       else (let cache_key = img2img_key model_type use_alternate_llm in
         case cache_check cache_key s of (found, s1) \<Rightarrow>
         (case load_and_cache_img2img e model_type use_alternate_llm cache_key found s1 of
            (Raises err, s2) \<Rightarrow> (Inl err, s2)
          | (Returns img, s2) \<Rightarrow> (Inr img, s2)
          | (Continues (pipe, cfg), s2) \<Rightarrow>
              sample e sched (scheduler_class cfg) (shift cfg) pipe seed
                (int image_h) (int image_w) s2))))"

section \<open>The host's unload hook\<close>

text \<open>
  The value of \<^verbatim>\<open>comfy.model_management.unload_all_models\<close>: the host's function, or a
  \<^verbatim>\<open>wrapped_unload\<close> closure over the function it replaced. Only the closure carries the
  attribute \<^verbatim>\<open>_hidream_wrapped\<close>. \<open>None\<close>: the host has no such function.
\<close>

datatype unload_fn = Host_unload | Wrapped_unload unload_fn

definition hidream_wrapped :: "unload_fn \<Rightarrow> bool" where
  "hidream_wrapped f = (case f of Host_unload \<Rightarrow> False | Wrapped_unload g \<Rightarrow> True)"

text \<open>The registration block that runs when the module is loaded.\<close>

definition register_cleanup :: "unload_fn option \<Rightarrow> unload_fn option" where
  "register_cleanup unload_all_models =
     (case unload_all_models of
        None \<Rightarrow> None
      | Some f \<Rightarrow> (if \<not> hidream_wrapped f then Some (Wrapped_unload f) else Some f))"

text \<open>
  A call of \<^verbatim>\<open>HiDreamSampler.cleanup_models()\<close> as its caller sees it: the garbage
  collection and the CUDA calls that follow the loop are outside every \<^verbatim>\<open>try\<close>, so an
  exception of theirs leaves the method, after the loop has run.
\<close>

definition cleanup_models_call :: "env \<Rightarrow> state \<Rightarrow> (error + bool) \<times> state" where
  "cleanup_models_call e s =
     (case cleanup_models e s of (ok, s1) \<Rightarrow>
        (case collect_garbage e of
           Some err \<Rightarrow> (Inl err, s1)
         | None \<Rightarrow> (Inr ok, s1)))"

text \<open>
  Calling the function. The host's own handler is a function of the host (\<open>original_unload\<close>
  of the environment): it is run in the state it is called in, it may change the state, and
  it returns a value or raises. \<^verbatim>\<open>wrapped_unload\<close> calls
  \<^verbatim>\<open>HiDreamSampler.cleanup_models()\<close> and then returns what the function it replaced returns;
  an exception of either call leaves the wrapper.
\<close>

fun call_unload :: "env \<Rightarrow> unload_fn \<Rightarrow> state \<Rightarrow> (error + nat) \<times> state" where
  "call_unload e Host_unload s =
     (case original_unload e s of (r, s1) \<Rightarrow> (external r, s1))"
| "call_unload e (Wrapped_unload original) s =
     (case cleanup_models_call e s of
        (Inl err, s1) \<Rightarrow> (Inl err, s1)
      | (Inr ok, s1) \<Rightarrow> call_unload e original s1)"

section \<open>A process to run the module in\<close>

text \<open>
  The state when the module has just been loaded: \<^verbatim>\<open>_model_cache = {}\<close> and no pipeline
  object exists.
\<close>

definition initial_state :: state where
  "initial_state = \<lparr>model_cache = [], objects = (\<lambda>h a. None), next_handle = 0\<rparr>"

text \<open>
  A process in which every dependency was imported and every library call succeeds. The
  pipeline constructors give an object with the attributes the module reads, and the host's
  unload handler returns the number of entries it finds in the cache.
\<close>

definition example_pipeline :: "comp \<Rightarrow> comp \<Rightarrow> comp \<Rightarrow> pipe_obj" where
  "example_pipeline sched tokenizer text_encoder =
     map_of [(''scheduler'', Some sched), (''vae'', Some 10), (''text_encoder'', Some 11),
             (''tokenizer'', Some 12), (''text_encoder_2'', Some 13), (''tokenizer_2'', Some 14),
             (''text_encoder_3'', Some 15), (''tokenizer_3'', Some 16),
             (''text_encoder_4'', Some text_encoder), (''tokenizer_4'', Some tokenizer),
             (''transformer'', None)]"

definition example_env :: env where
  "example_env =
     \<lparr>hidream_classes_loaded = True, bnb_available = True, optimum_available = True,
      gptqmodel_available = True, autogptq_available = False,
      AutoTokenizer_from_pretrained = (\<lambda>name. Inr 1),
      AutoModelForCausalLM_from_pretrained = (\<lambda>name. Inr 2),
      AutoGPTQForCausalLM_from_pretrained = (\<lambda>name. Inr 3),
      LlamaForCausalLM_from_pretrained = (\<lambda>name. Inr 4),
      HiDreamImageTransformer2DModel_from_pretrained = (\<lambda>name. Inr 5),
      scheduler_ctor = (\<lambda>name shift_value variant. Inr 6),
      HiDreamImagePipeline_from_pretrained =
        (\<lambda>name sched tokenizer text_encoder. Inr (example_pipeline sched tokenizer text_encoder)),
      HiDreamImageToImagePipeline_ctor = (\<lambda>vs. Inr (map_of (zip img2img_args vs))),
      preprocess_image = (\<lambda>h w. Inr (h, w)),
      setattr_raises = (\<lambda>h a. False),
      pipeline_call = (\<lambda>h. Image_tensor 0),
      manual_seed = (\<lambda>seed. None),
      memory_allocated = None,
      release_memory = None,
      zeros_capacity = 4294967296,
      int_max_str_digits = 4300,
      original_unload = (\<lambda>s. (Inr (length (model_cache s)), s))\<rparr>"

text \<open>The same process when the import of the HiDream classes has failed.\<close>

definition example_env_no_classes :: env where
  "example_env_no_classes = example_env\<lparr>hidream_classes_loaded := False\<rparr>"

text \<open>The same process when the CUDA calls that release memory raise.\<close>

definition example_env_cuda_error :: env where
  "example_env_cuda_error = example_env\<lparr>release_memory := Some ''CUDA error''\<rparr>"

text \<open>
  A state with one cached pipeline, as a text-to-image node leaves it, and the same state
  when the transformer of the cached pipeline is \<^verbatim>\<open>None\<close>.
\<close>

definition example_cached_state :: state where
  "example_cached_state =
     \<lparr>model_cache = [(''full_standard'', (Some 0, map_of MODEL_CONFIGS_all ''full''))],
      objects = (\<lambda>h. (example_pipeline 6 1 4)(''transformer'' \<mapsto> Some 5)),
      next_handle = 1\<rparr>"

definition example_stale_state :: state where
  "example_stale_state =
     \<lparr>model_cache = [(''full_standard'', (Some 0, map_of MODEL_CONFIGS_all ''full''))],
      objects = (\<lambda>h. example_pipeline 6 1 4),
      next_handle = 1\<rparr>"

text \<open>The example process when assigning to the transformer of a pipeline raises.\<close>

definition example_env_setattr_raises :: env where
  "example_env_setattr_raises =
     example_env\<lparr>setattr_raises := (\<lambda>h a. a = ''transformer'')\<rparr>"

text \<open>
  The state after an image-to-image node has run for the model type \<open>full\<close> in the example
  process, starting from the initial state.
\<close>

definition example_img2img_state :: state where
  "example_img2img_state =
     snd (HiDreamImg2Img_generate example_env ''full'' 512 512 0 ''Default for model'' False
            initial_state)"

text \<open>
  The state after a text-to-image node has run for the model type \<open>full\<close> in the example
  process, starting from the initial state.
\<close>

definition example_full_state :: state where
  "example_full_state =
     snd (HiDreamSampler_generate example_env ''full'' [] 0 ''Default for model'' False
            initial_state)"

section \<open>Properties of eviction\<close>

lemma remove_key_cache:
  "model_cache (remove_key e key s) = AList.delete key (model_cache s)"
proof (cases "map_of (model_cache s) key")
  case None
  then have "key \<notin> fst ` set (model_cache s)"
    by (simp add: map_of_eq_None_iff)
  with None show ?thesis
    by (simp add: remove_key_def dict_pop_def)
next
  case (Some v)
  then show ?thesis
    by (cases v) (simp add: remove_key_def dict_pop_def split: option.splits)
qed

lemma remove_keys_cache:
  "fst ` set (model_cache (remove_keys e ks s)) = fst ` set (model_cache s) - set ks"
proof (induction ks arbitrary: s)
  case Nil
  show ?case by simp
next
  case (Cons k ks)
  have "fst ` set (AList.delete k (model_cache s)) = fst ` set (model_cache s) - {k}"
    by (auto simp: AList.delete_eq)
  with Cons.IH [of "remove_key e k s"] show ?case
    by (auto simp: remove_key_cache)
qed

lemma remove_all_keys_empty:
  "model_cache (remove_keys e (dict_keys (model_cache s)) s) = []"
proof -
  have "fst ` set (model_cache (remove_keys e (dict_keys (model_cache s)) s)) = {}"
    by (simp add: remove_keys_cache dict_keys_def)
  then show ?thesis by simp
qed

lemma clear_all_cache_empty: "model_cache (clear_all_cache e s) = []"
  by (simp add: clear_all_cache_def remove_all_keys_empty)

lemma remove_keys_next_handle: "next_handle (remove_keys e ks s) = next_handle s"
  by (induction ks arbitrary: s)
     (auto simp: remove_key_def dict_pop_def split: option.splits sum.splits prod.splits)

text \<open>
  C4. \<^verbatim>\<open>cleanup_models\<close> returns \<^verbatim>\<open>True\<close> and leaves the dictionary empty, so no key is in
  it and both cache checks miss for every key afterwards. Whatever the assignments of
  \<^verbatim>\<open>None\<close> do (they may raise), one iteration of the loop has removed its key, since the
  entry is popped before its components are cleared.
\<close>

theorem cleanup_models_empties_cache:
  "fst (cleanup_models e s) = True
   \<and> model_cache (snd (cleanup_models e s)) = []
   \<and> \<not> dict_contains (model_cache (snd (cleanup_models e s))) key
   \<and> fst (cache_check key (snd (cleanup_models e s))) = (None, None)
   \<and> fst (loader_cache_check key (snd (cleanup_models e s))) = None
   \<and> \<not> dict_contains (model_cache (remove_key e key s)) key"
proof -
  have empty: "model_cache (snd (cleanup_models e s)) = []"
    by (simp add: cleanup_models_def remove_all_keys_empty)
  have popped: "map_of (model_cache (remove_key e key s)) key = None"
    by (simp add: remove_key_cache AList.delete_conv)
  show ?thesis
    using empty popped
    by (simp add: cleanup_models_def dict_contains_def cache_check_def loader_cache_check_def)
qed

section \<open>Properties of the cache keys\<close>

lemma llm_tag_last: "last (pre @ llm_tag a) = (if a then CHR ''e'' else CHR ''d'')"
  by (simp add: llm_tag_def)

lemma llm_tag_suffix_inj:
  assumes "p @ llm_tag a = q @ llm_tag b"
  shows "p = q \<and> a = b"
proof -
  have "last (p @ llm_tag a) = last (q @ llm_tag b)"
    using assms by simp
  then have ab: "a = b"
    by (simp add: llm_tag_last split: if_splits)
  with assms show ?thesis by simp
qed

lemma txt2img_key_inj:
  "(txt2img_key m1 a1 = txt2img_key m2 a2) = (m1 = m2 \<and> a1 = a2)"
proof
  assume "txt2img_key m1 a1 = txt2img_key m2 a2"
  then have "(m1 @ ''_'') @ llm_tag a1 = (m2 @ ''_'') @ llm_tag a2"
    by (simp add: txt2img_key_def)
  then have "m1 @ ''_'' = m2 @ ''_'' \<and> a1 = a2"
    by (rule llm_tag_suffix_inj)
  then show "m1 = m2 \<and> a1 = a2" by simp
qed simp

lemma img2img_key_inj:
  "(img2img_key m1 a1 = img2img_key m2 a2) = (m1 = m2 \<and> a1 = a2)"
proof
  assume "img2img_key m1 a1 = img2img_key m2 a2"
  then have "(m1 @ ''_img2img_'') @ llm_tag a1 = (m2 @ ''_img2img_'') @ llm_tag a2"
    by (simp add: img2img_key_def)
  then have "m1 @ ''_img2img_'' = m2 @ ''_img2img_'' \<and> a1 = a2"
    by (rule llm_tag_suffix_inj)
  then show "m1 = m2 \<and> a1 = a2" by simp
qed simp

lemma txt2img_img2img_same_pair: "txt2img_key m a \<noteq> img2img_key m a"
  by (simp add: txt2img_key_def img2img_key_def)

text \<open>
  A text-to-image key is an image-to-image key only for a model type that ends in
  \<open>_img2img\<close>.
\<close>

lemma key_collision:
  assumes "txt2img_key m1 a1 = img2img_key m2 a2"
  shows "m1 = m2 @ ''_img2img'' \<and> a1 = a2"
proof -
  have "(m1 @ ''_'') @ llm_tag a1 = (m2 @ ''_img2img_'') @ llm_tag a2"
    using assms by (simp add: txt2img_key_def img2img_key_def)
  then have "m1 @ ''_'' = m2 @ ''_img2img_'' \<and> a1 = a2"
    by (rule llm_tag_suffix_inj)
  then have "m1 @ ''_'' = (m2 @ ''_img2img'') @ ''_''" and "a1 = a2"
    by simp_all
  then show ?thesis by simp
qed

lemma known_model_type_no_collision:
  assumes "m1 \<in> fst ` set MODEL_CONFIGS_all"
  shows "txt2img_key m1 a1 \<noteq> img2img_key m2 a2"
proof
  assume "txt2img_key m1 a1 = img2img_key m2 a2"
  then have "m1 = m2 @ ''_img2img''"
    using key_collision by blast
  then have "rev m1 = ''gmi2gmi_'' @ rev m2"
    by simp
  with assms show False
    by (auto simp: MODEL_CONFIGS_all_def)
qed

text \<open>
  C6. The key is a function of the model type and the flag (and of the kind of node, which
  chooses the function). For one pair the two kinds of node build different keys, and keys of
  one kind are equal exactly when the pairs are.
\<close>

theorem cache_key_namespaces:
  "txt2img_key model_type use_alternate_llm \<noteq> img2img_key model_type use_alternate_llm
   \<and> (txt2img_key m1 a1 = txt2img_key m2 a2) = (m1 = m2 \<and> a1 = a2)
   \<and> (img2img_key m1 a1 = img2img_key m2 a2) = (m1 = m2 \<and> a1 = a2)"
  by (simp add: txt2img_img2img_same_pair txt2img_key_inj img2img_key_inj)

section \<open>Properties of the resolution presets\<close>

lemma get_resolution_custom_square:
  "get_resolution ''Custom Square'' c = (c, c)"
  by (simp add: get_resolution_def)

lemma get_resolution_stored:
  assumes "map_of RESOLUTION_PRESETS resolution_preset = Some (Some d)"
  shows "get_resolution resolution_preset c = d"
proof -
  have "resolution_preset \<noteq> ''Custom Square''"
    using assms by (auto simp: RESOLUTION_PRESETS_def split: if_splits)
  with assms show ?thesis
    by (cases d) (simp add: get_resolution_def)
qed

text \<open>
  The stored pairs that are not two positive multiples of 64 are the two \<open>Classic\<close> presets:
  1120 is 17 times 64 plus 32.
\<close>

lemma presets_not_multiples_of_64:
  "filter (\<lambda>(k, d). case d of None \<Rightarrow> False
                              | Some (w, h) \<Rightarrow> \<not> (0 < w \<and> 0 < h \<and> w mod 64 = 0 \<and> h mod 64 = 0))
          RESOLUTION_PRESETS
   = [(''4:5 Classic (896 x 1120)'', Some (896, 1120)),
      (''5:4 Classic (1120 x 896)'', Some (1120, 896))]"
  by (simp add: RESOLUTION_PRESETS_def)

text \<open>
  C10. For the presets \<open>4:5 Classic (896 x 1120)\<close> and \<open>5:4 Classic (1120 x 896)\<close>
  \<^verbatim>\<open>get_resolution\<close> returns the stored pair, in which 1120 is not a multiple of 64, although
  the comment in the method says that all preset dimensions are multiples of 64.
\<close>



theorem get_resolution_classic_not_multiple_of_64:
  "get_resolution ''4:5 Classic (896 x 1120)'' 1024 = (896, 1120)
   \<and> get_resolution ''5:4 Classic (1120 x 896)'' 1024 = (1120, 896)
   \<and> (1120 :: int) mod 64 = 32"
  by (simp add: get_resolution_def RESOLUTION_PRESETS_def)

section \<open>Properties of the loader\<close>

lemma external_error: "external r = Inl err \<Longrightarrow> \<exists>msg. err = ExternalError msg"
  by (cases r) (auto simp: external_def)

lemma load_text_encoder_error:
  "load_text_encoder e nf4 name = Inl err \<Longrightarrow> \<forall>x. err \<noteq> ValueError x"
  by (auto simp: load_text_encoder_def dest: external_error split: if_splits)

lemma get_scheduler_instance_error:
  "get_scheduler_instance e n sh = Inl err \<Longrightarrow>
   err \<noteq> ValueError (''Unknown or incompatible model_type: '' @ m)"
  by (auto simp: get_scheduler_instance_def dest: external_error split: if_splits)

lemma load_pipeline_error:
  "load_pipeline e cfg a \<noteq> Inl (ValueError (''Unknown or incompatible model_type: '' @ m))"
proof
  assume failed: "load_pipeline e cfg a = Inl (ValueError (''Unknown or incompatible model_type: '' @ m))"
  let ?err = "ValueError (''Unknown or incompatible model_type: '' @ m)"
  let ?name = "llama_model_name (is_nf4 cfg) a"
  from failed have guard: "\<not> (\<not> is_nf4 cfg \<and> \<not> bnb_available e)"
    by (auto simp: load_pipeline_def Let_def split: if_splits)
  obtain tokenizer where tok: "external (AutoTokenizer_from_pretrained e ?name) = Inr tokenizer"
    using failed guard
    by (cases "external (AutoTokenizer_from_pretrained e ?name)")
       (auto simp: load_pipeline_def Let_def dest: external_error)
  obtain enc where enc: "load_text_encoder e (is_nf4 cfg) ?name = Inr enc"
    using failed guard tok
    by (cases "load_text_encoder e (is_nf4 cfg) ?name")
       (auto simp: load_pipeline_def Let_def dest: load_text_encoder_error)
  obtain tr where tr: "external (HiDreamImageTransformer2DModel_from_pretrained e (path cfg)) = Inr tr"
    using failed guard tok enc
    by (cases "external (HiDreamImageTransformer2DModel_from_pretrained e (path cfg))")
       (auto simp: load_pipeline_def Let_def dest: external_error)
  obtain sc where sc: "get_scheduler_instance e (scheduler_class cfg) (shift cfg) = Inr sc"
    using failed guard tok enc tr
    by (cases "get_scheduler_instance e (scheduler_class cfg) (shift cfg)")
       (auto simp: load_pipeline_def Let_def dest: get_scheduler_instance_error)
  from failed guard tok enc tr sc show False
    by (cases "external (HiDreamImagePipeline_from_pretrained e (path cfg) sc tokenizer enc)")
       (auto simp: load_pipeline_def Let_def dest: external_error)
qed

lemma load_models_not_loaded:
  "\<not> hidream_classes_loaded e \<Longrightarrow>
   load_models e m a s
     = (Inl (ImportError ''Cannot load models: HiDream classes failed to import.''), s)"
  by (simp add: load_models_def)

lemma load_models_unknown:
  "hidream_classes_loaded e \<Longrightarrow> \<not> dict_contains (MODEL_CONFIGS e) m \<Longrightarrow>
   load_models e m a s = (Inl (ValueError (''Unknown or incompatible model_type: '' @ m)), s)"
  by (simp add: load_models_def dict_contains_def)

lemma MODEL_CONFIGS_entry:
  assumes "map_of (MODEL_CONFIGS e) m = Some cfg"
  shows "hidream_classes_loaded e"
    and "\<not> (requires_bnb cfg \<and> \<not> bnb_available e)"
    and "\<not> (requires_gptq_deps cfg \<and> (\<not> optimum_available e \<or> \<not> gptq_support_available e))"
proof -
  from assms have mem: "(m, cfg) \<in> set (MODEL_CONFIGS e)"
    by (rule map_of_SomeD)
  then show "hidream_classes_loaded e"
    by (auto simp: MODEL_CONFIGS_def Let_def split: if_splits)
  from mem show "\<not> (requires_bnb cfg \<and> \<not> bnb_available e)"
    by (auto simp: MODEL_CONFIGS_def Let_def split: if_splits)
  from mem show "\<not> (requires_gptq_deps cfg \<and> (\<not> optimum_available e \<or> \<not> gptq_support_available e))"
    by (auto simp: MODEL_CONFIGS_def Let_def split: if_splits)
qed

lemma load_models_known:
  assumes "dict_contains (MODEL_CONFIGS e) m"
  shows "fst (load_models e m a s) \<noteq> Inl (ValueError (''Unknown or incompatible model_type: '' @ m))"
proof -
  from assms obtain cfg where cfg: "map_of (MODEL_CONFIGS e) m = Some cfg"
    by (auto simp: dict_contains_def)
  note guards = MODEL_CONFIGS_entry [OF cfg]
  show ?thesis
  proof (cases "loader_cache_check (txt2img_key m a) s")
    case (Pair found s1)
    show ?thesis
    proof (cases found)
      case None
      with Pair cfg guards load_pipeline_error [of e cfg a m] show ?thesis
        by (cases "load_pipeline e cfg a") (auto simp: load_models_def alloc_def)
    next
      case (Some h)
      with Pair cfg guards show ?thesis
        by (simp add: load_models_def)
    qed
  qed
qed

lemma example_env_flags:
  "hidream_classes_loaded example_env"
  "\<not> hidream_classes_loaded example_env_no_classes"
  by (simp_all add: example_env_def example_env_no_classes_def)

lemma example_env_configs: "MODEL_CONFIGS example_env = MODEL_CONFIGS_all"
  by (simp add: MODEL_CONFIGS_def example_env_def gptq_support_available_def)

lemma example_env_contains:
  "dict_contains (MODEL_CONFIGS example_env) ''full''"
  "\<not> dict_contains (MODEL_CONFIGS example_env) ''sdxl''"
  "\<not> dict_contains (MODEL_CONFIGS example_env) ''full_img2img''"
  by (simp_all add: example_env_configs dict_contains_def MODEL_CONFIGS_all_def)

text \<open>
  C5, as amended. When the HiDream classes were imported, \<^verbatim>\<open>load_models\<close> raises
  \<^verbatim>\<open>ValueError\<close> for every model type that is not a key of \<^verbatim>\<open>MODEL_CONFIGS\<close>, and the state
  is unchanged. When their import failed, \<^verbatim>\<open>MODEL_CONFIGS\<close> is empty and \<^verbatim>\<open>load_models\<close> raises
  \<^verbatim>\<open>ImportError\<close> for every model type, because that test comes first. For a key of
  \<^verbatim>\<open>MODEL_CONFIGS\<close> the call does not end with this \<^verbatim>\<open>ValueError\<close>.
\<close>

theorem load_models_model_type_check:
  "(hidream_classes_loaded e \<and> \<not> dict_contains (MODEL_CONFIGS e) model_type \<longrightarrow>
      load_models e model_type use_alternate_llm s
        = (Inl (ValueError (''Unknown or incompatible model_type: '' @ model_type)), s))
   \<and> (\<not> hidream_classes_loaded e \<longrightarrow>
      \<not> dict_contains (MODEL_CONFIGS e) model_type
      \<and> load_models e model_type use_alternate_llm s
        = (Inl (ImportError ''Cannot load models: HiDream classes failed to import.''), s))
   \<and> (dict_contains (MODEL_CONFIGS e) model_type \<longrightarrow>
      fst (load_models e model_type use_alternate_llm s)
        \<noteq> Inl (ValueError (''Unknown or incompatible model_type: '' @ model_type)))"
proof -
  have "\<not> hidream_classes_loaded e \<Longrightarrow> \<not> dict_contains (MODEL_CONFIGS e) model_type"
    by (simp add: MODEL_CONFIGS_def dict_contains_def Let_def)
  then show ?thesis
    using load_models_unknown [of e model_type use_alternate_llm s]
      load_models_not_loaded [of e model_type use_alternate_llm s]
      load_models_known [of e model_type use_alternate_llm s]
    by (intro conjI impI) simp_all
qed

theorem load_models_model_type_check_witness:
  "hidream_classes_loaded example_env
   \<and> \<not> dict_contains (MODEL_CONFIGS example_env) ''sdxl''
   \<and> load_models example_env ''sdxl'' False initial_state
       = (Inl (ValueError ''Unknown or incompatible model_type: sdxl''), initial_state)
   \<and> \<not> hidream_classes_loaded example_env_no_classes
   \<and> load_models example_env_no_classes ''sdxl'' False initial_state
       = (Inl (ImportError ''Cannot load models: HiDream classes failed to import.''), initial_state)
   \<and> dict_contains (MODEL_CONFIGS example_env) ''full''
   \<and> fst (load_models example_env ''full'' False initial_state)
       \<noteq> Inl (ValueError ''Unknown or incompatible model_type: full'')"
  using load_models_model_type_check [of example_env "''sdxl''" False initial_state]
    load_models_model_type_check [of example_env_no_classes "''sdxl''" False initial_state]
    load_models_model_type_check [of example_env "''full''" False initial_state]
  by (simp add: example_env_flags example_env_contains)

text \<open>
  The claim C5 as it is written fails in a process where the import of the HiDream classes
  has failed: \<open>sdxl\<close> is not a key of \<^verbatim>\<open>MODEL_CONFIGS\<close>, and the call raises
  \<^verbatim>\<open>ImportError\<close>, not \<^verbatim>\<open>ValueError\<close>.
\<close>

theorem load_models_import_error_first:
  "\<not> dict_contains (MODEL_CONFIGS example_env_no_classes) ''sdxl''
   \<and> fst (load_models example_env_no_classes ''sdxl'' False initial_state)
       = Inl (ImportError ''Cannot load models: HiDream classes failed to import.'')
   \<and> fst (load_models example_env_no_classes ''sdxl'' False initial_state)
       \<noteq> Inl (ValueError ''Unknown or incompatible model_type: sdxl'')"
  by (simp add: load_models_def MODEL_CONFIGS_def dict_contains_def example_env_flags)

section \<open>Properties of the unload hook\<close>

lemma cleanup_models_call_returns:
  "release_memory e = None \<Longrightarrow>
   cleanup_models_call e s = (Inr True, snd (cleanup_models e s))"
  by (simp add: cleanup_models_call_def cleanup_models_def collect_garbage_def)

lemma cleanup_models_call_raises:
  "release_memory e = Some msg \<Longrightarrow>
   cleanup_models_call e s = (Inl (ExternalError msg), snd (cleanup_models e s))"
  by (simp add: cleanup_models_call_def cleanup_models_def collect_garbage_def)

lemma cleanup_models_cache: "model_cache (snd (cleanup_models e s)) = []"
  by (simp add: cleanup_models_def remove_all_keys_empty)

lemma register_cleanup_twice:
  "register_cleanup (register_cleanup unload_all_models) = register_cleanup unload_all_models"
  by (cases unload_all_models)
     (simp_all add: register_cleanup_def hidream_wrapped_def split: unload_fn.splits)

text \<open>
  C7, as amended. The registration replaces the host's function by \<^verbatim>\<open>wrapped_unload\<close>. When
  the garbage collection and the CUDA calls at the end of \<^verbatim>\<open>cleanup_models\<close> return, a call of
  the wrapper is a call of the function it replaced, made in the state that
  \<^verbatim>\<open>cleanup_models\<close> has left: for the host's handler the outcome and the final state are those
  of the handler run in that state, in which the cache is empty. When one of these calls
  raises, the exception leaves the wrapper after the eviction loop and the function it replaced
  is not called. Running the registration again changes nothing, so the host's function is
  wrapped once.
\<close>

theorem wrapped_unload_cleans_then_delegates:
  "register_cleanup (Some Host_unload) = Some (Wrapped_unload Host_unload)
   \<and> (release_memory e = None \<longrightarrow>
        call_unload e (Wrapped_unload original) s
          = call_unload e original (snd (cleanup_models e s))
        \<and> call_unload e (Wrapped_unload Host_unload) s
          = (external (fst (original_unload e (snd (cleanup_models e s)))),
             snd (original_unload e (snd (cleanup_models e s)))))
   \<and> model_cache (snd (cleanup_models e s)) = []
   \<and> (\<forall>msg. release_memory e = Some msg \<longrightarrow>
        call_unload e (Wrapped_unload original) s
          = (Inl (ExternalError msg), snd (cleanup_models e s)))
   \<and> register_cleanup (register_cleanup unload_all_models) = register_cleanup unload_all_models
   \<and> register_cleanup (register_cleanup (Some Host_unload)) = Some (Wrapped_unload Host_unload)"
proof -
  have first: "register_cleanup (Some Host_unload) = Some (Wrapped_unload Host_unload)"
    by (simp add: register_cleanup_def hidream_wrapped_def)
  have again: "register_cleanup (register_cleanup (Some Host_unload))
               = Some (Wrapped_unload Host_unload)"
    by (simp add: register_cleanup_def hidream_wrapped_def)
  have delegate: "call_unload e (Wrapped_unload f) s = call_unload e f (snd (cleanup_models e s))"
    if "release_memory e = None" for f
    using that by (simp add: cleanup_models_call_returns)
  have host: "call_unload e (Wrapped_unload Host_unload) s
          = (external (fst (original_unload e (snd (cleanup_models e s)))),
             snd (original_unload e (snd (cleanup_models e s))))"
    if "release_memory e = None"
    using that by (simp add: cleanup_models_call_returns split: prod.splits)
  have raises: "call_unload e (Wrapped_unload original) s
          = (Inl (ExternalError msg), snd (cleanup_models e s))"
    if "release_memory e = Some msg" for msg
    using that by (simp add: cleanup_models_call_raises)
  from first again delegate host raises cleanup_models_cache [of e s]
    register_cleanup_twice [of unload_all_models]
  show ?thesis
    by (intro conjI impI allI)
qed

text \<open>
  With a handler that returns the number of cache entries it finds: called alone on a cache of
  one entry it returns 1, called through the wrapper it returns 0.
\<close>

theorem wrapped_unload_cleans_then_delegates_witness:
  "release_memory example_env = None
   \<and> call_unload example_env Host_unload example_cached_state = (Inr 1, example_cached_state)
   \<and> fst (call_unload example_env (Wrapped_unload Host_unload) example_cached_state) = Inr 0
   \<and> model_cache (snd (call_unload example_env (Wrapped_unload Host_unload) example_cached_state))
       = []
   \<and> release_memory example_env_cuda_error = Some ''CUDA error''
   \<and> fst (call_unload example_env_cuda_error (Wrapped_unload Host_unload) example_cached_state)
       = Inl (ExternalError ''CUDA error'')"
proof -
  have none: "release_memory example_env = None"
    by (simp add: example_env_def)
  have some: "release_memory example_env_cuda_error = Some ''CUDA error''"
    by (simp add: example_env_cuda_error_def example_env_def)
  have handler: "original_unload example_env s = (Inr (length (model_cache s)), s)" for s
    by (simp add: example_env_def)
  have alone: "call_unload example_env Host_unload example_cached_state
               = (Inr 1, example_cached_state)"
    by (simp add: handler external_def example_cached_state_def)
  from wrapped_unload_cleans_then_delegates
         [of example_env Host_unload example_cached_state]
       wrapped_unload_cleans_then_delegates
         [of example_env_cuda_error Host_unload example_cached_state]
       none some alone
  show ?thesis
    by (simp add: handler external_def)
qed

text \<open>
  The claim C7 as it is written fails in a process where the CUDA calls of
  \<^verbatim>\<open>cleanup_models\<close> raise: the wrapper ends with that exception, not with the result of the
  host's handler, which would have returned 0 after the eviction and 1 before it.
\<close>

theorem wrapped_unload_skips_original:
  "fst (call_unload example_env_cuda_error (Wrapped_unload Host_unload) example_cached_state)
     = Inl (ExternalError ''CUDA error'')
   \<and> fst (call_unload example_env_cuda_error Host_unload
            (snd (cleanup_models example_env_cuda_error example_cached_state)))
     = Inr 0
   \<and> fst (call_unload example_env_cuda_error Host_unload example_cached_state) = Inr 1"
proof -
  have some: "release_memory example_env_cuda_error = Some ''CUDA error''"
    by (simp add: example_env_cuda_error_def example_env_def)
  have handler: "original_unload example_env_cuda_error s = (Inr (length (model_cache s)), s)" for s
    by (simp add: example_env_cuda_error_def example_env_def)
  show ?thesis
    by (simp add: cleanup_models_call_raises [OF some] handler external_def
          cleanup_models_cache example_cached_state_def)
qed

section \<open>Properties of the cache lookup\<close>

lemma cache_check_hit:
  assumes "map_of (model_cache s) cache_key = Some (Some h, Some c)"
    and "has_transformer (objects s h)"
  shows "cache_check cache_key s = ((Some h, Some c), s)"
  using assms by (simp add: cache_check_def valid_pipe_def)

lemma loader_cache_check_hit:
  assumes "map_of (model_cache s) cache_key = Some (Some h, stored_config)"
    and "has_transformer (objects s h)"
  shows "loader_cache_check cache_key s = (Some h, s)"
  using assms by (simp add: loader_cache_check_def valid_pipe_def)

lemma cache_check_invalid:
  assumes "map_of (model_cache s) cache_key = Some (pipe, stored_config)"
    and "\<not> valid_pipe (objects s) pipe"
  shows "cache_check cache_key s
         = ((None, None), s\<lparr>model_cache := AList.delete cache_key (model_cache s)\<rparr>)"
  using assms by (simp add: cache_check_def)

lemma loader_cache_check_invalid:
  assumes "map_of (model_cache s) cache_key = Some (pipe, stored_config)"
    and "\<not> valid_pipe (objects s) pipe"
  shows "loader_cache_check cache_key s
         = (None, s\<lparr>model_cache := AList.delete cache_key (model_cache s)\<rparr>)"
  using assms by (simp add: loader_cache_check_def)

lemma deleted_key_absent: "\<not> dict_contains (AList.delete k d) k"
  by (simp add: dict_contains_def AList.delete_conv)

lemma load_models_hit:
  assumes "map_of (MODEL_CONFIGS e) model_type = Some cfg"
    and "map_of (model_cache s) (txt2img_key model_type use_alternate_llm)
         = Some (Some h, stored_config)"
    and "has_transformer (objects s h)"
  shows "load_models e model_type use_alternate_llm s = (Inr (h, cfg), s)"
  using MODEL_CONFIGS_entry [OF assms(1)] assms(1) loader_cache_check_hit [OF assms(2,3)]
  by (simp add: load_models_def)

lemma example_full_config:
  "\<exists>c. map_of MODEL_CONFIGS_all ''full'' = Some c"
  by (simp add: MODEL_CONFIGS_all_def)

lemma example_states_objects:
  "has_transformer (objects example_cached_state 0)"
  "\<not> has_transformer (objects example_stale_state 0)"
  by (simp_all add: example_cached_state_def example_stale_state_def has_transformer_def
        example_pipeline_def)

lemma example_states_cache:
  "model_cache example_cached_state
     = [(''full_standard'', (Some 0, map_of MODEL_CONFIGS_all ''full''))]"
  "model_cache example_stale_state
     = [(''full_standard'', (Some 0, map_of MODEL_CONFIGS_all ''full''))]"
  by (simp_all add: example_cached_state_def example_stale_state_def)

text \<open>
  C3. Let the cache hold, under a key, a pipeline handle with a configuration record. When the
  handle is not \<^verbatim>\<open>None\<close> and the transformer of its pipeline is not \<^verbatim>\<open>None\<close>, the lookup of
  the \<^verbatim>\<open>generate\<close> methods yields the stored handle and the stored record, the lookup of
  \<^verbatim>\<open>load_models\<close> yields the stored handle, and \<^verbatim>\<open>load_models\<close> returns it with the
  record of the model type in \<^verbatim>\<open>MODEL_CONFIGS\<close>; the state is unchanged. When the handle is
  \<^verbatim>\<open>None\<close>, or its pipeline has no transformer or the transformer \<^verbatim>\<open>None\<close>, both lookups
  miss and remove the entry: the key is not in the cache afterwards.
\<close>

theorem cache_lookup_contract:
  assumes "map_of (model_cache s) cache_key = Some (pipe, stored_config)"
  shows "(\<forall>h c. pipe = Some h \<and> stored_config = Some c \<and> has_transformer (objects s h) \<longrightarrow>
            cache_check cache_key s = ((Some h, Some c), s)
            \<and> loader_cache_check cache_key s = (Some h, s)
            \<and> (\<forall>cfg. cache_key = txt2img_key model_type use_alternate_llm
                      \<and> map_of (MODEL_CONFIGS e) model_type = Some cfg \<longrightarrow>
                   load_models e model_type use_alternate_llm s = (Inr (h, cfg), s)))
       \<and> (pipe = None \<or> (\<exists>h. pipe = Some h \<and> \<not> has_transformer (objects s h)) \<longrightarrow>
            cache_check cache_key s
              = ((None, None), s\<lparr>model_cache := AList.delete cache_key (model_cache s)\<rparr>)
            \<and> loader_cache_check cache_key s
              = (None, s\<lparr>model_cache := AList.delete cache_key (model_cache s)\<rparr>)
            \<and> \<not> dict_contains (model_cache (snd (cache_check cache_key s))) cache_key
            \<and> \<not> dict_contains (model_cache (snd (loader_cache_check cache_key s))) cache_key)"
proof (intro conjI allI impI)
  fix h c
  assume valid: "pipe = Some h \<and> stored_config = Some c \<and> has_transformer (objects s h)"
  with assms have entry: "map_of (model_cache s) cache_key = Some (Some h, Some c)"
    by simp
  from entry valid show "cache_check cache_key s = ((Some h, Some c), s)"
    by (simp add: cache_check_hit)
  from entry valid show "loader_cache_check cache_key s = (Some h, s)"
    by (simp add: loader_cache_check_hit)
  fix cfg
  assume "cache_key = txt2img_key model_type use_alternate_llm
          \<and> map_of (MODEL_CONFIGS e) model_type = Some cfg"
  with entry valid show "load_models e model_type use_alternate_llm s = (Inr (h, cfg), s)"
    by (simp add: load_models_hit)
next
  assume "pipe = None \<or> (\<exists>h. pipe = Some h \<and> \<not> has_transformer (objects s h))"
  then have invalid: "\<not> valid_pipe (objects s) pipe"
    by (auto simp: valid_pipe_def)
  show a: "cache_check cache_key s
        = ((None, None), s\<lparr>model_cache := AList.delete cache_key (model_cache s)\<rparr>)"
    using assms invalid by (rule cache_check_invalid)
  show b: "loader_cache_check cache_key s
        = (None, s\<lparr>model_cache := AList.delete cache_key (model_cache s)\<rparr>)"
    using assms invalid by (rule loader_cache_check_invalid)
  show "\<not> dict_contains (model_cache (snd (cache_check cache_key s))) cache_key"
    by (simp add: a deleted_key_absent)
  show "\<not> dict_contains (model_cache (snd (loader_cache_check cache_key s))) cache_key"
    by (simp add: b deleted_key_absent)
qed

theorem cache_lookup_contract_witness:
  "map_of (model_cache example_cached_state) ''full_standard''
     = Some (Some 0, map_of MODEL_CONFIGS_all ''full'')
   \<and> has_transformer (objects example_cached_state 0)
   \<and> cache_check ''full_standard'' example_cached_state
       = ((Some 0, map_of MODEL_CONFIGS_all ''full''), example_cached_state)
   \<and> loader_cache_check ''full_standard'' example_cached_state = (Some 0, example_cached_state)
   \<and> fst (load_models example_env ''full'' False example_cached_state)
       = Inr (0, the (map_of MODEL_CONFIGS_all ''full''))
   \<and> map_of (model_cache example_stale_state) ''full_standard''
     = Some (Some 0, map_of MODEL_CONFIGS_all ''full'')
   \<and> \<not> has_transformer (objects example_stale_state 0)
   \<and> fst (cache_check ''full_standard'' example_stale_state) = (None, None)
   \<and> fst (loader_cache_check ''full_standard'' example_stale_state) = None
   \<and> model_cache (snd (cache_check ''full_standard'' example_stale_state)) = []
   \<and> model_cache (snd (loader_cache_check ''full_standard'' example_stale_state)) = []"
proof -
  obtain c where c: "map_of MODEL_CONFIGS_all ''full'' = Some c"
    using example_full_config by blast
  have key: "txt2img_key ''full'' False = ''full_standard''"
    by (simp add: txt2img_key_def llm_tag_def)
  from cache_lookup_contract
         [of example_cached_state "''full_standard''" "Some 0" "Some c" "''full''" False example_env]
       cache_lookup_contract
         [of example_stale_state "''full_standard''" "Some 0" "Some c" "''full''" False example_env]
  show ?thesis
    by (simp add: example_states_cache example_states_objects c key example_env_configs)
qed

section \<open>The cache after each part of a method\<close>

text \<open>
  Every part of the three \<^verbatim>\<open>generate\<close> methods leaves the dictionary as it was, or without
  the key it looked up, or empty, or with the one entry it has just written.
\<close>

lemma cache_check_cache:
  "model_cache (snd (cache_check k s)) = model_cache s
   \<or> model_cache (snd (cache_check k s)) = AList.delete k (model_cache s)"
  by (simp add: cache_check_def split: option.splits prod.splits)

lemma cache_check_found:
  "cache_check k s = ((None, None), snd (cache_check k s))
   \<or> (\<exists>h c. cache_check k s = ((Some h, Some c), s))"
  by (auto simp: cache_check_def split: option.splits prod.splits)

lemma cache_check_absent:
  "\<not> dict_contains (model_cache s) k \<Longrightarrow> cache_check k s = ((None, None), s)"
  by (cases "map_of (model_cache s) k") (auto simp: cache_check_def dict_contains_def)

lemma loader_cache_check_cache:
  "model_cache (snd (loader_cache_check k s)) = model_cache s
   \<or> model_cache (snd (loader_cache_check k s)) = AList.delete k (model_cache s)"
  by (simp add: loader_cache_check_def split: option.splits prod.splits)

lemma load_models_cache:
  "model_cache (snd (load_models e m a s)) = model_cache s
   \<or> model_cache (snd (load_models e m a s)) = AList.delete (txt2img_key m a) (model_cache s)"
proof (cases "loader_cache_check (txt2img_key m a) s")
  case (Pair found s1)
  with loader_cache_check_cache [of "txt2img_key m a" s]
  have s1: "model_cache s1 = model_cache s
            \<or> model_cache s1 = AList.delete (txt2img_key m a) (model_cache s)"
    by simp
  show ?thesis
  proof (cases found)
    case None
    with Pair s1 show ?thesis
      by (auto simp: load_models_def alloc_def split: option.splits sum.splits)
  next
    case (Some h)
    with Pair s1 show ?thesis
      by (auto simp: load_models_def split: option.splits)
  qed
qed

lemma load_models_cache_empty:
  "model_cache s = [] \<Longrightarrow> model_cache (snd (load_models e m a s)) = []"
  using load_models_cache [of e m a s] by auto

lemma install_scheduler_cache:
  "model_cache (snd (install_scheduler pipe r s)) = model_cache s"
  by (simp add: install_scheduler_def set_scheduler_def split: sum.splits)

lemma update_scheduler_cache:
  "model_cache (snd (update_scheduler e sched c sh pipe s)) = model_cache s"
  by (simp add: update_scheduler_def install_scheduler_cache set_scheduler_def split: sum.splits)

lemma sample_cache:
  "model_cache (snd (sample e sched c sh pipe seed h w s)) = model_cache s"
proof (cases "update_scheduler e sched c sh pipe s")
  case (Pair r s1)
  with update_scheduler_cache [of e sched c sh pipe s] have "model_cache s1 = model_cache s"
    by simp
  with Pair show ?thesis
    by (simp add: sample_def split: option.splits)
qed

lemma clear_cache_before_load_cache:
  "model_cache (snd (clear_cache_before_load e s)) = []"
  by (simp add: clear_cache_before_load_def clear_all_cache_empty)

lemma return_blank_not_continues: "return_blank e h w \<noteq> Continues x"
  by (simp add: return_blank_def split: sum.splits)

lemma load_and_cache_hit:
  "load_and_cache e m a k (Some h, Some c) s = (Continues (h, c), s)"
  by (simp add: load_and_cache_def)

lemma load_and_cache_img2img_hit:
  "load_and_cache_img2img e m a k (Some h, Some c) s = (Continues (h, c), s)"
  by (simp add: load_and_cache_img2img_def)

lemma load_and_cache_miss:
  "(\<forall>x. fst (load_and_cache e m a k (None, u) s) \<noteq> Continues x)
     \<and> model_cache (snd (load_and_cache e m a k (None, u) s)) = []
   \<or> (\<exists>h c. fst (load_and_cache e m a k (None, u) s) = Continues (h, c)
          \<and> model_cache (snd (load_and_cache e m a k (None, u) s)) = [(k, (Some h, Some c))])"
proof (cases "clear_cache_before_load e s")
  case (Pair r s0)
  with clear_cache_before_load_cache [of e s] have s0: "model_cache s0 = []"
    by simp
  show ?thesis
  proof (cases r)
    case (Some err)
    with Pair s0 show ?thesis
      by (simp add: load_and_cache_def)
  next
    case None
    show ?thesis
    proof (cases "load_models e m a s0")
      case loaded: (Pair res s1)
      with load_models_cache_empty [OF s0, of e m a] have s1: "model_cache s1 = []"
        by simp
      show ?thesis
      proof (cases res)
        case (Inl err)
        with Pair None loaded s1 show ?thesis
          by (simp add: load_and_cache_def return_blank_not_continues)
      next
        case (Inr hc)
        with Pair None loaded s1 show ?thesis
          by (cases hc) (simp add: load_and_cache_def)
      qed
    qed
  qed
qed

lemma alloc_cache: "model_cache (snd (alloc obj s)) = model_cache s"
  by (simp add: alloc_def)

lemma load_and_cache_img2img_miss:
  "(\<forall>x. fst (load_and_cache_img2img e m a k (None, u) s) \<noteq> Continues x)
     \<and> model_cache (snd (load_and_cache_img2img e m a k (None, u) s)) = []
   \<or> (\<exists>h c. fst (load_and_cache_img2img e m a k (None, u) s) = Continues (h, c)
          \<and> model_cache (snd (load_and_cache_img2img e m a k (None, u) s))
              = [(k, (Some h, Some c))])"
proof (cases "clear_cache_before_load e s")
  case (Pair r s0)
  with clear_cache_before_load_cache [of e s] have s0: "model_cache s0 = []"
    by simp
  show ?thesis
  proof (cases r)
    case (Some err)
    with Pair s0 show ?thesis
      by (simp add: load_and_cache_img2img_def)
  next
    case None
    show ?thesis
    proof (cases "load_models e m a s0")
      case loaded: (Pair res s1)
      with load_models_cache_empty [OF s0, of e m a] have s1: "model_cache s1 = []"
        by simp
      show ?thesis
      proof (cases res)
        case (Inl err)
        with Pair None loaded s1 show ?thesis
          by (simp add: load_and_cache_img2img_def return_blank_not_continues)
      next
        case (Inr hc)
        obtain tp cfg where hc: "hc = (tp, cfg)"
          by (cases hc)
        show ?thesis
        proof (cases "make_img2img e (objects s1 tp)")
          case failed: (Inl err)
          with Pair None loaded s1 Inr hc show ?thesis
            by (simp add: load_and_cache_img2img_def return_blank_not_continues)
        next
          case made: (Inr obj)
          obtain pipe s2 where al: "alloc obj s1 = (pipe, s2)"
            by (cases "alloc obj s1")
          with alloc_cache [of obj s1] s1 have "model_cache s2 = []"
            by simp
          with Pair None loaded Inr hc made al show ?thesis
            by (simp add: load_and_cache_img2img_def)
        qed
      qed
    qed
  qed
qed

lemma delete_singleton: "AList.delete k [(k, v)] = []"
  by (simp add: AList.delete_eq)

lemma sampler_tail_cache:
  "model_cache (snd (case load_models e m a s2 of
                       (Inl err, s3) \<Rightarrow> (Inl err, s3)
                     | (Inr (txt2img_pipe, model_config), s3) \<Rightarrow>
                         sample e sched (scheduler_class model_config) sh pipe seed h w s3))
     = model_cache s2
   \<or> model_cache (snd (case load_models e m a s2 of
                       (Inl err, s3) \<Rightarrow> (Inl err, s3)
                     | (Inr (txt2img_pipe, model_config), s3) \<Rightarrow>
                         sample e sched (scheduler_class model_config) sh pipe seed h w s3))
     = AList.delete (txt2img_key m a) (model_cache s2)"
proof (cases "load_models e m a s2")
  case (Pair res s3)
  with load_models_cache [of e m a s2]
  have s3: "model_cache s3 = model_cache s2
            \<or> model_cache s3 = AList.delete (txt2img_key m a) (model_cache s2)"
    by simp
  show ?thesis
  proof (cases res)
    case (Inl err)
    with Pair s3 show ?thesis by simp
  next
    case (Inr pc)
    with Pair s3 show ?thesis
      by (cases pc) (simp add: sample_cache)
  qed
qed

lemma HiDreamSampler_generate_cache:
  "model_cache (snd (HiDreamSampler_generate e m ar seed sched a s)) = model_cache s
   \<or> model_cache (snd (HiDreamSampler_generate e m ar seed sched a s))
      = AList.delete (txt2img_key m a) (model_cache s)
   \<or> model_cache (snd (HiDreamSampler_generate e m ar seed sched a s)) = []
   \<or> (\<exists>h c. model_cache (snd (HiDreamSampler_generate e m ar seed sched a s))
             = [(txt2img_key m a, (Some h, Some c))])"
proof -
  let ?k = "txt2img_key m a"
  obtain w0 h0 where parsed: "parse_aspect_ratio (int_max_str_digits e) ar = (w0, h0)"
    by (cases "parse_aspect_ratio (int_max_str_digits e) ar")
  show ?thesis
  proof (cases "log_memory e")
    case (Some err)
    with parsed show ?thesis
      by (simp add: HiDreamSampler_generate_def)
  next
    case None
    show ?thesis
    proof (cases "MODEL_CONFIGS e = [] \<or> m = ''error''")
      case True
      with parsed None show ?thesis
        by (simp add: HiDreamSampler_generate_def)
    next
      case False
      from cache_check_found [of ?k s] show ?thesis
      proof
        assume "cache_check ?k s = ((None, None), snd (cache_check ?k s))"
        then obtain s1 where miss: "cache_check ?k s = ((None, None), s1)"
          by blast
        let ?s1 = "s1"
        obtain r s2 where lac: "load_and_cache e m a ?k (None, None) ?s1 = (r, s2)"
          by (cases "load_and_cache e m a ?k (None, None) ?s1")
        from load_and_cache_miss [of e m a ?k None ?s1] lac
        have shape: "(\<forall>x. r \<noteq> Continues x) \<and> model_cache s2 = []
                     \<or> (\<exists>h c. r = Continues (h, c) \<and> model_cache s2 = [(?k, (Some h, Some c))])"
          by simp
        then show ?thesis
        proof
          assume stop: "(\<forall>x. r \<noteq> Continues x) \<and> model_cache s2 = []"
          then have "snd (HiDreamSampler_generate e m ar seed sched a s) = s2"
            using parsed None False miss lac
            by (cases r) (simp_all add: HiDreamSampler_generate_def Let_def)
          with stop show ?thesis by simp
        next
          assume "\<exists>h c. r = Continues (h, c) \<and> model_cache s2 = [(?k, (Some h, Some c))]"
          then obtain h c where go: "r = Continues (h, c)"
            and s2: "model_cache s2 = [(?k, (Some h, Some c))]"
            by blast
          have "snd (HiDreamSampler_generate e m ar seed sched a s)
                = snd (case load_models e m a s2 of
                         (Inl err, s3) \<Rightarrow> (Inl err, s3)
                       | (Inr (txt2img_pipe, model_config), s3) \<Rightarrow>
                           sample e sched (scheduler_class model_config) (shift c) h seed
                             ((h0 div 64) * 64) ((w0 div 64) * 64) s3)"
            using parsed None False miss lac go
            by (simp add: HiDreamSampler_generate_def Let_def)
          with sampler_tail_cache [where e = e and m = m and a = a and ?s2.0 = s2
                 and sched = sched and sh = "shift c" and pipe = h and seed = seed
                 and h = "(h0 div 64) * 64" and w = "(w0 div 64) * 64"] s2
          show ?thesis
            by (auto simp: delete_singleton)
        qed
      next
        assume "\<exists>h c. cache_check ?k s = ((Some h, Some c), s)"
        then obtain h c where hit: "cache_check ?k s = ((Some h, Some c), s)"
          by blast
        have "snd (HiDreamSampler_generate e m ar seed sched a s)
              = snd (case load_models e m a s of
                       (Inl err, s3) \<Rightarrow> (Inl err, s3)
                     | (Inr (txt2img_pipe, model_config), s3) \<Rightarrow>
                         sample e sched (scheduler_class model_config) (shift c) h seed
                           ((h0 div 64) * 64) ((w0 div 64) * 64) s3)"
          using parsed None False hit
          by (simp add: HiDreamSampler_generate_def Let_def load_and_cache_hit)
        with sampler_tail_cache [where e = e and m = m and a = a and ?s2.0 = s
               and sched = sched and sh = "shift c" and pipe = h and seed = seed
               and h = "(h0 div 64) * 64" and w = "(w0 div 64) * 64"]
        show ?thesis
          by auto
      qed
    qed
  qed
qed

lemma HiDreamSamplerAdvanced_generate_cache:
  "model_cache (snd (HiDreamSamplerAdvanced_generate e m ar seed sched a sq cw ch s))
     = model_cache s
   \<or> model_cache (snd (HiDreamSamplerAdvanced_generate e m ar seed sched a sq cw ch s))
      = AList.delete (txt2img_key m a) (model_cache s)
   \<or> model_cache (snd (HiDreamSamplerAdvanced_generate e m ar seed sched a sq cw ch s)) = []
   \<or> (\<exists>h c. model_cache (snd (HiDreamSamplerAdvanced_generate e m ar seed sched a sq cw ch s))
             = [(txt2img_key m a, (Some h, Some c))])"
proof -
  let ?k = "txt2img_key m a"
  obtain w0 h0 where dims:
    "(if py_contains ''Square Reso'' ar then (sq, sq)
      else if ar = ''Custom'' then (cw, ch)
      else parse_dimensions (int_max_str_digits e) ar) = (w0, h0)"
    by (cases "if py_contains ''Square Reso'' ar then (sq, sq)
               else if ar = ''Custom'' then (cw, ch)
               else parse_dimensions (int_max_str_digits e) ar")
  show ?thesis
  proof (cases "log_memory e")
    case (Some err)
    with dims show ?thesis
      by (simp add: HiDreamSamplerAdvanced_generate_def)
  next
    case None
    show ?thesis
    proof (cases "MODEL_CONFIGS e = [] \<or> m = ''error''")
      case True
      with dims None show ?thesis
        by (simp add: HiDreamSamplerAdvanced_generate_def)
    next
      case False
      from cache_check_found [of ?k s] show ?thesis
      proof
        assume "cache_check ?k s = ((None, None), snd (cache_check ?k s))"
        then obtain s1 where miss: "cache_check ?k s = ((None, None), s1)"
          by blast
        obtain r s2 where lac: "load_and_cache e m a ?k (None, None) s1 = (r, s2)"
          by (cases "load_and_cache e m a ?k (None, None) s1")
        from load_and_cache_miss [of e m a ?k None s1] lac
        have shape: "(\<forall>x. r \<noteq> Continues x) \<and> model_cache s2 = []
                     \<or> (\<exists>h c. r = Continues (h, c) \<and> model_cache s2 = [(?k, (Some h, Some c))])"
          by simp
        then show ?thesis
        proof
          assume stop: "(\<forall>x. r \<noteq> Continues x) \<and> model_cache s2 = []"
          then have "snd (HiDreamSamplerAdvanced_generate e m ar seed sched a sq cw ch s) = s2"
            using dims None False miss lac
            by (cases r) (simp_all add: HiDreamSamplerAdvanced_generate_def Let_def)
          with stop show ?thesis by simp
        next
          assume "\<exists>h c. r = Continues (h, c) \<and> model_cache s2 = [(?k, (Some h, Some c))]"
          then obtain h c where go: "r = Continues (h, c)"
            and s2: "model_cache s2 = [(?k, (Some h, Some c))]"
            by blast
          have "snd (HiDreamSamplerAdvanced_generate e m ar seed sched a sq cw ch s)
                = snd (sample e sched (scheduler_class c) (shift c) h seed
                         ((h0 div 64) * 64) ((w0 div 64) * 64) s2)"
            using dims None False miss lac go
            by (simp add: HiDreamSamplerAdvanced_generate_def Let_def)
          with s2 show ?thesis
            by (simp add: sample_cache)
        qed
      next
        assume "\<exists>h c. cache_check ?k s = ((Some h, Some c), s)"
        then obtain h c where hit: "cache_check ?k s = ((Some h, Some c), s)"
          by blast
        have "snd (HiDreamSamplerAdvanced_generate e m ar seed sched a sq cw ch s)
              = snd (sample e sched (scheduler_class c) (shift c) h seed
                       ((h0 div 64) * 64) ((w0 div 64) * 64) s)"
          using dims None False hit
          by (simp add: HiDreamSamplerAdvanced_generate_def Let_def load_and_cache_hit)
        then show ?thesis
          by (simp add: sample_cache)
      qed
    qed
  qed
qed

lemma HiDreamImg2Img_generate_cache:
  "model_cache (snd (HiDreamImg2Img_generate e m ih iw seed sched a s)) = model_cache s
   \<or> model_cache (snd (HiDreamImg2Img_generate e m ih iw seed sched a s))
      = AList.delete (img2img_key m a) (model_cache s)
   \<or> model_cache (snd (HiDreamImg2Img_generate e m ih iw seed sched a s)) = []
   \<or> (\<exists>h c. model_cache (snd (HiDreamImg2Img_generate e m ih iw seed sched a s))
             = [(img2img_key m a, (Some h, Some c))])"
proof (cases "external (preprocess_image e ih iw)")
  case (Inl err)
  then show ?thesis
    by (simp add: HiDreamImg2Img_generate_def)
next
  case (Inr hw)
  obtain height width where hw: "hw = (height, width)"
    by (cases hw)
  let ?k = "img2img_key m a"
  show ?thesis
  proof (cases "log_memory e")
    case (Some err)
    with Inr hw show ?thesis
      by (simp add: HiDreamImg2Img_generate_def)
  next
    case None
    show ?thesis
    proof (cases "MODEL_CONFIGS e = [] \<or> m = ''error''")
      case True
      with Inr hw None show ?thesis
        by (simp add: HiDreamImg2Img_generate_def)
    next
      case False
      from cache_check_found [of ?k s] show ?thesis
      proof
        assume "cache_check ?k s = ((None, None), snd (cache_check ?k s))"
        then obtain s1 where miss: "cache_check ?k s = ((None, None), s1)"
          by blast
        obtain r s2 where lac: "load_and_cache_img2img e m a ?k (None, None) s1 = (r, s2)"
          by (cases "load_and_cache_img2img e m a ?k (None, None) s1")
        from load_and_cache_img2img_miss [of e m a ?k None s1] lac
        have shape: "(\<forall>x. r \<noteq> Continues x) \<and> model_cache s2 = []
                     \<or> (\<exists>h c. r = Continues (h, c) \<and> model_cache s2 = [(?k, (Some h, Some c))])"
          by simp
        then show ?thesis
        proof
          assume stop: "(\<forall>x. r \<noteq> Continues x) \<and> model_cache s2 = []"
          then have "snd (HiDreamImg2Img_generate e m ih iw seed sched a s) = s2"
            using Inr hw None False miss lac
            by (cases r) (simp_all add: HiDreamImg2Img_generate_def Let_def)
          with stop show ?thesis by simp
        next
          assume "\<exists>h c. r = Continues (h, c) \<and> model_cache s2 = [(?k, (Some h, Some c))]"
          then obtain h c where go: "r = Continues (h, c)"
            and s2: "model_cache s2 = [(?k, (Some h, Some c))]"
            by blast
          have "snd (HiDreamImg2Img_generate e m ih iw seed sched a s)
                = snd (sample e sched (scheduler_class c) (shift c) h seed (int ih) (int iw) s2)"
            using Inr hw None False miss lac go
            by (simp add: HiDreamImg2Img_generate_def Let_def)
          with s2 show ?thesis
            by (simp add: sample_cache)
        qed
      next
        assume "\<exists>h c. cache_check ?k s = ((Some h, Some c), s)"
        then obtain h c where hit: "cache_check ?k s = ((Some h, Some c), s)"
          by blast
        have "snd (HiDreamImg2Img_generate e m ih iw seed sched a s)
              = snd (sample e sched (scheduler_class c) (shift c) h seed (int ih) (int iw) s)"
          using Inr hw None False hit
          by (simp add: HiDreamImg2Img_generate_def Let_def load_and_cache_img2img_hit)
        then show ?thesis
          by (simp add: sample_cache)
      qed
    qed
  qed
qed

section \<open>Clearing the components of an evicted pipeline\<close>

lemma fun_upd_keeps_null:
  "attr_is_null (st h') a \<Longrightarrow> attr_is_null ((st(h := (st h)(b \<mapsto> None))) h') a"
  by (auto simp: attr_is_null_def)

lemma clear_attrs_keeps_null:
  "attr_is_null (st h') a \<Longrightarrow> attr_is_null (clear_attrs e h as st h') a"
proof (induction as arbitrary: st)
  case Nil
  then show ?case by simp
next
  case (Cons b bs)
  have IH: "attr_is_null (clear_attrs e h bs st' h') a" if "attr_is_null (st' h') a" for st'
    using Cons.IH that by blast
  consider (absent) "st h b = None"
    | (raises) "st h b \<noteq> None" "setattr_raises e h b"
    | (assigned) "st h b \<noteq> None" "\<not> setattr_raises e h b"
    by blast
  then show ?case
  proof cases
    case absent
    then have "clear_attrs e h (b # bs) st = clear_attrs e h bs st"
      by simp
    with IH [of st, OF Cons.prems] show ?thesis
      by (simp only:)
  next
    case raises
    then have "clear_attrs e h (b # bs) st = st"
      by (cases "st h b") simp_all
    with Cons.prems show ?thesis
      by (simp only:)
  next
    case assigned
    then have "clear_attrs e h (b # bs) st
               = clear_attrs e h bs (st(h := (st h)(b \<mapsto> None)))"
      by (cases "st h b") simp_all
    with IH [of "st(h := (st h)(b \<mapsto> None))",
               OF fun_upd_keeps_null [of st h' a h b, OF Cons.prems]]
    show ?thesis
      by (simp only:)
  qed
qed

lemma clear_attrs_nulls:
  assumes "\<forall>b. \<not> setattr_raises e h b"
  shows "a \<in> set as \<Longrightarrow> attr_is_null (clear_attrs e h as st h) a"
proof (induction as arbitrary: st)
  case Nil
  then show ?case by simp
next
  case (Cons b bs)
  have IH: "attr_is_null (clear_attrs e h bs st' h) a" if "a \<in> set bs" for st'
    using Cons.IH that by blast
  let ?st = "st(h := (st h)(b \<mapsto> None))"
  have step: "clear_attrs e h (b # bs) st = clear_attrs e h bs st \<and> st h b = None
              \<or> clear_attrs e h (b # bs) st = clear_attrs e h bs ?st"
    using assms by simp
  show ?case
  proof (cases "a = b")
    case True
    have old: "attr_is_null (st h) a" if "st h b = None"
      using True that by (simp add: attr_is_null_def)
    have new: "attr_is_null (?st h) a"
      using True by (simp add: attr_is_null_def)
    from step show ?thesis
    proof
      assume *: "clear_attrs e h (b # bs) st = clear_attrs e h bs st \<and> st h b = None"
      then have "st h b = None"
        by simp
      then have "attr_is_null (st h) a"
        by (rule old)
      then have "attr_is_null (clear_attrs e h bs st h) a"
        by (rule clear_attrs_keeps_null [of st h a e h bs])
      with * show ?thesis
        by (simp only:)
    next
      assume *: "clear_attrs e h (b # bs) st = clear_attrs e h bs ?st"
      from new have "attr_is_null (clear_attrs e h bs ?st h) a"
        by (rule clear_attrs_keeps_null [of ?st h a e h bs])
      with * show ?thesis
        by (simp only:)
    qed
  next
    case False
    with Cons.prems have "a \<in> set bs"
      by simp
    from step IH [of st, OF this] IH [of ?st, OF this] show ?thesis
      by (auto simp only:)
  qed
qed

lemma remove_key_keeps_null:
  "attr_is_null (objects s h) a \<Longrightarrow> attr_is_null (objects (remove_key e k s) h) a"
  by (simp add: remove_key_def clear_attrs_keeps_null split: sum.splits prod.splits option.splits)

lemma remove_keys_keeps_null:
  "attr_is_null (objects s h) a \<Longrightarrow> attr_is_null (objects (remove_keys e ks s) h) a"
  by (induction ks arbitrary: s) (simp_all add: remove_key_keeps_null)

lemma remove_key_nulls:
  assumes "map_of (model_cache s) k = Some (Some h, c)"
    and "\<forall>b. \<not> setattr_raises e h b"
    and "a \<in> set owned_attrs"
  shows "attr_is_null (objects (remove_key e k s) h) a"
  using assms by (simp add: remove_key_def dict_pop_def clear_attrs_nulls)

lemma remove_key_other_entry:
  "k' \<noteq> k \<Longrightarrow> map_of (model_cache (remove_key e k' s)) k = map_of (model_cache s) k"
  by (simp add: remove_key_cache AList.delete_conv)

lemma remove_keys_nulls:
  assumes "\<forall>b. \<not> setattr_raises e h b" and "a \<in> set owned_attrs"
  shows "map_of (model_cache s) k = Some (Some h, c) \<Longrightarrow> k \<in> set ks \<Longrightarrow>
         attr_is_null (objects (remove_keys e ks s) h) a"
proof (induction ks arbitrary: s)
  case Nil
  then show ?case by simp
next
  case (Cons k' ks)
  show ?case
  proof (cases "k' = k")
    case True
    with Cons.prems assms have "attr_is_null (objects (remove_key e k' s) h) a"
      by (simp add: remove_key_nulls)
    then show ?thesis
      by (simp add: remove_keys_keeps_null)
  next
    case False
    with Cons.prems have "map_of (model_cache (remove_key e k' s)) k = Some (Some h, c)"
      and "k \<in> set ks"
      by (simp_all add: remove_key_other_entry)
    with Cons.IH [of "remove_key e k' s"] show ?thesis
      by simp
  qed
qed

lemma clear_cache_before_load_nulls:
  assumes "map_of (model_cache s) k = Some (Some h, c)"
    and "\<forall>b. \<not> setattr_raises e h b"
    and "a \<in> set owned_attrs"
  shows "attr_is_null (objects (snd (clear_cache_before_load e s)) h) a"
proof -
  from assms(1) have "(k, (Some h, c)) \<in> set (model_cache s)"
    by (rule map_of_SomeD)
  then have mem: "k \<in> set (dict_keys (model_cache s))" and nonempty: "model_cache s \<noteq> []"
    by (auto simp: dict_keys_def intro: rev_image_eqI)
  from remove_keys_nulls [OF assms(2,3) assms(1) mem] nonempty show ?thesis
    by (simp add: clear_cache_before_load_def clear_all_cache_def)
qed

lemma length_delete_bound: "length (AList.delete k d) \<le> length d"
  by (simp add: AList.delete_eq)

lemma one_entry_step:
  assumes "c' = c0 \<or> c' = AList.delete k c0 \<or> c' = [] \<or> (\<exists>h c. c' = [(k, (Some h, Some c))])"
    and "length c0 \<le> 1"
  shows "length c' \<le> 1"
  using assms length_delete_bound [of k c0] by auto

lemma put_leaves_one_entry:
  assumes "c' = c0 \<or> c' = AList.delete k c0 \<or> c' = [] \<or> (\<exists>h c. c' = [(k, (Some h, Some c))])"
    and "\<not> dict_contains c0 k" and "dict_contains c' k"
  shows "\<exists>h c. c' = [(k, (Some h, Some c))]"
  using assms deleted_key_absent [of k c0] by (auto simp: dict_contains_def)

lemma other_key_absent:
  "c' = [(k, v)] \<Longrightarrow> k' \<noteq> k \<Longrightarrow> \<not> dict_contains c' k'"
  by (simp add: dict_contains_def)

lemma loader_cache_check_absent:
  "\<not> dict_contains (model_cache s) k \<Longrightarrow> loader_cache_check k s = (None, s)"
  by (cases "map_of (model_cache s) k") (auto simp: loader_cache_check_def dict_contains_def)

lemma MODEL_CONFIGS_known:
  assumes "dict_contains (MODEL_CONFIGS e) m"
  shows "m \<in> fst ` set MODEL_CONFIGS_all"
proof -
  from assms obtain cfg where "map_of (MODEL_CONFIGS e) m = Some cfg"
    by (auto simp: dict_contains_def)
  then have "(m, cfg) \<in> set (MODEL_CONFIGS e)"
    by (rule map_of_SomeD)
  then have "(m, cfg) \<in> set MODEL_CONFIGS_all"
    by (auto simp: MODEL_CONFIGS_def Let_def split: if_splits)
  then show ?thesis
    by (rule rev_image_eqI) simp
qed

section \<open>Running the example process\<close>

lemma example_parse: "parse_aspect_ratio n [] = (1024, 1024)"
  by (simp add: parse_aspect_ratio_def parse_parenthesised_def)

lemma example_env_fields:
  "hidream_classes_loaded example_env"
  "bnb_available example_env"
  "optimum_available example_env"
  "gptqmodel_available example_env"
  "AutoTokenizer_from_pretrained example_env name = Inr 1"
  "AutoModelForCausalLM_from_pretrained example_env name = Inr 2"
  "LlamaForCausalLM_from_pretrained example_env name = Inr 4"
  "HiDreamImageTransformer2DModel_from_pretrained example_env name = Inr 5"
  "scheduler_ctor example_env name sh variant = Inr 6"
  "HiDreamImagePipeline_from_pretrained example_env name sc tok enc
     = Inr (example_pipeline sc tok enc)"
  "HiDreamImageToImagePipeline_ctor example_env vs = Inr (map_of (zip img2img_args vs))"
  "preprocess_image example_env ih iw = Inr (ih, iw)"
  "setattr_raises example_env h a = False"
  "pipeline_call example_env h = Image_tensor 0"
  "manual_seed example_env seed = None"
  "memory_allocated example_env = None"
  "release_memory example_env = None"
  "zeros_capacity example_env = 4294967296"
  "int_max_str_digits example_env = 4300"
  by (simp_all add: example_env_def)

lemma example_generate_dev:
  "dict_contains (model_cache (snd (HiDreamSampler_generate example_env ''dev'' [] 0
      ''Default for model'' False example_cached_state))) ''dev_standard''"
  by (simp add: HiDreamSampler_generate_def example_parse log_memory_def example_env_configs
        cache_check_def example_cached_state_def txt2img_key_def llm_tag_def load_and_cache_def
        clear_cache_before_load_def collect_garbage_def clear_all_cache_def dict_keys_def
        remove_key_def dict_pop_def owned_attrs_def load_models_def loader_cache_check_def
        load_pipeline_def llama_model_name_def external_def load_text_encoder_def
        get_scheduler_instance_def available_schedulers_def alloc_def valid_pipe_def
        has_transformer_def sample_def update_scheduler_def set_scheduler_def run_pipeline_def
        dict_contains_def MODEL_CONFIGS_all_def gptq_support_available_def example_pipeline_def
        example_env_fields Let_def)

lemmas node_defs =
  HiDreamSampler_generate_def HiDreamSamplerAdvanced_generate_def HiDreamImg2Img_generate_def
  log_memory_def cache_check_def txt2img_key_def img2img_key_def llm_tag_def
  load_and_cache_def load_and_cache_img2img_def make_img2img_def img2img_args_def
  clear_cache_before_load_def collect_garbage_def clear_all_cache_def dict_keys_def
  remove_key_def dict_pop_def owned_attrs_def load_models_def loader_cache_check_def
  load_pipeline_def llama_model_name_def external_def load_text_encoder_def
  get_scheduler_instance_def available_schedulers_def alloc_def valid_pipe_def
  has_transformer_def sample_def update_scheduler_def set_scheduler_def run_pipeline_def
  dict_contains_def gptq_support_available_def Let_def

lemmas example_defs =
  example_parse example_env_configs example_env_fields MODEL_CONFIGS_all_def
  example_pipeline_def example_cached_state_def initial_state_def

lemma example_img2img_cache:
  "dict_contains (model_cache example_img2img_state) ''full_img2img_standard''"
  by (simp add: example_img2img_state_def node_defs example_defs)

lemma example_img2img_result:
  "fst (HiDreamImg2Img_generate example_env ''full'' 512 512 0 ''Default for model'' False
          initial_state) = Inr (Generated 0)"
  by (simp add: node_defs example_defs)

lemma example_env_assignments: "\<forall>b. \<not> setattr_raises example_env h b"
  by (simp add: example_env_fields)

section \<open>Properties of the nodes\<close>

text \<open>
  C2, as amended. The block that precedes a load removes every entry of the cache. The four
  owned attributes of a removed pipeline are \<^verbatim>\<open>None\<close> (or absent) afterwards, as long as no
  assignment to an attribute of that pipeline raises: an exception there is caught, the entry
  stays removed and the attributes not yet assigned keep their values. After the load and the
  put the cache has at most one entry. If the cache has at most one entry, it has at most one
  after \<^verbatim>\<open>generate\<close> of each of the three nodes, after \<^verbatim>\<open>load_models\<close> and after
  \<^verbatim>\<open>cleanup_models\<close>, whether the method returns or raises.
\<close>

theorem at_most_one_entry:
  "model_cache (snd (clear_cache_before_load e s)) = []
   \<and> (map_of (model_cache s) key = Some (Some h, c) \<and> (\<forall>b. \<not> setattr_raises e h b)
        \<and> a \<in> set owned_attrs \<longrightarrow>
      attr_is_null (objects (snd (clear_cache_before_load e s)) h) a)
   \<and> length (model_cache
        (snd (load_and_cache e model_type use_alternate_llm cache_key (None, u) s))) \<le> 1
   \<and> length (model_cache
        (snd (load_and_cache_img2img e model_type use_alternate_llm cache_key (None, u) s))) \<le> 1
   \<and> (length (model_cache s) \<le> 1 \<longrightarrow>
        length (model_cache (snd (HiDreamSampler_generate e model_type aspect_ratio seed sched
                  use_alternate_llm s))) \<le> 1
        \<and> length (model_cache (snd (HiDreamSamplerAdvanced_generate e model_type aspect_ratio seed
                  sched use_alternate_llm square_resolution custom_width custom_height s))) \<le> 1
        \<and> length (model_cache (snd (HiDreamImg2Img_generate e model_type image_h image_w seed
                  sched use_alternate_llm s))) \<le> 1
        \<and> length (model_cache (snd (load_models e model_type use_alternate_llm s))) \<le> 1
        \<and> length (model_cache (snd (cleanup_models e s))) \<le> 1)"
proof (intro conjI impI)
  show "model_cache (snd (clear_cache_before_load e s)) = []"
    by (rule clear_cache_before_load_cache)
next
  assume "map_of (model_cache s) key = Some (Some h, c) \<and> (\<forall>b. \<not> setattr_raises e h b)
          \<and> a \<in> set owned_attrs"
  then show "attr_is_null (objects (snd (clear_cache_before_load e s)) h) a"
    using clear_cache_before_load_nulls [of s key h c e a] by blast
next
  from load_and_cache_miss [of e model_type use_alternate_llm cache_key u s]
  show "length (model_cache
          (snd (load_and_cache e model_type use_alternate_llm cache_key (None, u) s))) \<le> 1"
    by auto
next
  from load_and_cache_img2img_miss [of e model_type use_alternate_llm cache_key u s]
  show "length (model_cache
          (snd (load_and_cache_img2img e model_type use_alternate_llm cache_key (None, u) s))) \<le> 1"
    by auto
next
  assume one: "length (model_cache s) \<le> 1"
  from HiDreamSampler_generate_cache [of e model_type aspect_ratio seed sched use_alternate_llm s]
  show "length (model_cache (snd (HiDreamSampler_generate e model_type aspect_ratio seed sched
                  use_alternate_llm s))) \<le> 1"
    using one by (rule one_entry_step)
  from HiDreamSamplerAdvanced_generate_cache [of e model_type aspect_ratio seed sched
         use_alternate_llm square_resolution custom_width custom_height s]
  show "length (model_cache (snd (HiDreamSamplerAdvanced_generate e model_type aspect_ratio seed
                  sched use_alternate_llm square_resolution custom_width custom_height s))) \<le> 1"
    using one by (rule one_entry_step)
  from HiDreamImg2Img_generate_cache [of e model_type image_h image_w seed sched
         use_alternate_llm s]
  show "length (model_cache (snd (HiDreamImg2Img_generate e model_type image_h image_w seed
                  sched use_alternate_llm s))) \<le> 1"
    using one by (rule one_entry_step)
  from load_models_cache [of e model_type use_alternate_llm s] one
    length_delete_bound [of "txt2img_key model_type use_alternate_llm" "model_cache s"]
  show "length (model_cache (snd (load_models e model_type use_alternate_llm s))) \<le> 1"
    by auto
  show "length (model_cache (snd (cleanup_models e s))) \<le> 1"
    by (simp add: cleanup_models_cache)
qed

theorem at_most_one_entry_witness:
  "length (model_cache example_cached_state) \<le> 1
   \<and> map_of (model_cache example_cached_state) ''full_standard''
       = Some (Some 0, map_of MODEL_CONFIGS_all ''full'')
   \<and> model_cache (snd (clear_cache_before_load example_env example_cached_state)) = []
   \<and> attr_is_null (objects (snd (clear_cache_before_load example_env example_cached_state)) 0)
        ''transformer''
   \<and> attr_is_null (objects (snd (clear_cache_before_load example_env example_cached_state)) 0)
        ''scheduler''
   \<and> length (model_cache (snd (HiDreamSampler_generate example_env ''dev'' [] 0
        ''Default for model'' False example_cached_state))) \<le> 1
   \<and> length (model_cache (snd (HiDreamSamplerAdvanced_generate example_env ''dev'' [] 0
        ''Default for model'' False 1024 1024 1024 example_cached_state))) \<le> 1
   \<and> length (model_cache (snd (HiDreamImg2Img_generate example_env ''dev'' 512 512 0
        ''Default for model'' False example_cached_state))) \<le> 1"
  using at_most_one_entry [where e = example_env and s = example_cached_state
      and key = "''full_standard''" and h = 0 and c = "map_of MODEL_CONFIGS_all ''full''"
      and a = "''transformer''" and model_type = "''dev''" and use_alternate_llm = False
      and aspect_ratio = "[]" and seed = 0 and sched = "''Default for model''"
      and square_resolution = 1024 and custom_width = 1024 and custom_height = 1024
      and image_h = 512 and image_w = 512]
    at_most_one_entry [where e = example_env and s = example_cached_state
      and key = "''full_standard''" and h = 0 and c = "map_of MODEL_CONFIGS_all ''full''"
      and a = "''scheduler''"]
  by (simp add: example_states_cache example_env_assignments owned_attrs_def)

text \<open>
  The claim C2 as it is written fails when an assignment raises: in the example process in
  which assigning to the transformer raises, the eviction removes the entry of the cached
  pipeline, and its transformer and its scheduler are not \<^verbatim>\<open>None\<close> afterwards.
\<close>

theorem eviction_skips_components_when_assignment_raises:
  "map_of (model_cache example_cached_state) ''full_standard''
     = Some (Some 0, map_of MODEL_CONFIGS_all ''full'')
   \<and> model_cache (snd (clear_cache_before_load example_env_setattr_raises example_cached_state))
       = []
   \<and> \<not> attr_is_null
         (objects (snd (clear_cache_before_load example_env_setattr_raises example_cached_state)) 0)
         ''transformer''
   \<and> \<not> attr_is_null
         (objects (snd (clear_cache_before_load example_env_setattr_raises example_cached_state)) 0)
         ''scheduler''"
  by (simp add: clear_cache_before_load_def clear_all_cache_def dict_keys_def remove_key_def
        dict_pop_def owned_attrs_def attr_is_null_def example_cached_state_def
        example_pipeline_def example_env_setattr_raises_def example_env_def)

lemma example_full_cache:
  "dict_contains (model_cache example_full_state) ''full_standard''"
  "\<not> dict_contains (model_cache example_full_state) ''dev_standard''"
  by (simp_all add: example_full_state_def node_defs example_defs)

lemma example_full_result:
  "fst (HiDreamSampler_generate example_env ''full'' [] 0 ''Default for model'' False
          initial_state) = Inr (Generated 0)"
  by (simp add: node_defs example_defs)

lemma example_dev_after_full:
  "dict_contains
     (model_cache (snd (HiDreamSamplerAdvanced_generate example_env ''dev'' [] 0
        ''Default for model'' False 1024 1024 1024 example_full_state))) ''dev_standard''"
  by (simp add: example_full_state_def node_defs example_defs parse_dimensions_def
        parse_dimensions_try_def parse_parenthesised_def)

text \<open>
  C1. Let B be a configuration whose key is not in the cache. After a \<^verbatim>\<open>generate\<close> call of
  any of the three nodes for B that leaves B in the cache (the call has loaded and cached B),
  the cache is the one entry of B: every other key, in particular the key of a configuration
  A cached before, is absent, and both lookups for it miss. Two distinct configurations of one
  kind of node have distinct keys, and so have a text-to-image and an image-to-image
  configuration when the model type of the first is a key of \<^verbatim>\<open>MODEL_CONFIGS\<close>, as it is once
  it has been loaded.
\<close>

theorem single_slot_eviction:
  assumes "\<not> dict_contains (model_cache s) key_B"
    and "(s', key_B)
           = (snd (HiDreamSampler_generate e m_B aspect_ratio seed sched a_B s),
              txt2img_key m_B a_B)
         \<or> (s', key_B)
           = (snd (HiDreamSamplerAdvanced_generate e m_B aspect_ratio seed sched a_B
                     square_resolution custom_width custom_height s),
              txt2img_key m_B a_B)
         \<or> (s', key_B)
           = (snd (HiDreamImg2Img_generate e m_B image_h image_w seed sched a_B s),
              img2img_key m_B a_B)"
    and "dict_contains (model_cache s') key_B"
    and "key_A \<noteq> key_B"
  shows "(\<exists>h c. model_cache s' = [(key_B, (Some h, Some c))])
         \<and> \<not> dict_contains (model_cache s') key_A
         \<and> cache_check key_A s' = ((None, None), s')
         \<and> loader_cache_check key_A s' = (None, s')
         \<and> ((m_A, a_A) \<noteq> (m_B, a_B) \<longrightarrow>
              txt2img_key m_A a_A \<noteq> txt2img_key m_B a_B
              \<and> img2img_key m_A a_A \<noteq> img2img_key m_B a_B)
         \<and> (dict_contains (MODEL_CONFIGS e) m_A \<longrightarrow> txt2img_key m_A a_A \<noteq> img2img_key m_B a_B)
         \<and> (dict_contains (MODEL_CONFIGS e) m_B \<longrightarrow> img2img_key m_A a_A \<noteq> txt2img_key m_B a_B)"
proof -
  have shape: "model_cache s' = model_cache s \<or> model_cache s' = AList.delete key_B (model_cache s)
               \<or> model_cache s' = [] \<or> (\<exists>h c. model_cache s' = [(key_B, (Some h, Some c))])"
    using assms(2)
      HiDreamSampler_generate_cache [of e m_B aspect_ratio seed sched a_B s]
      HiDreamSamplerAdvanced_generate_cache [of e m_B aspect_ratio seed sched a_B
        square_resolution custom_width custom_height s]
      HiDreamImg2Img_generate_cache [of e m_B image_h image_w seed sched a_B s]
    by (elim disjE) simp_all
  from shape assms(1,3) have one: "\<exists>h c. model_cache s' = [(key_B, (Some h, Some c))]"
    by (rule put_leaves_one_entry)
  then obtain h c where "model_cache s' = [(key_B, (Some h, Some c))]"
    by (elim exE)
  then have absent: "\<not> dict_contains (model_cache s') key_A"
    using assms(4) by (rule other_key_absent)
  have keys: "txt2img_key m_A a_A \<noteq> txt2img_key m_B a_B
              \<and> img2img_key m_A a_A \<noteq> img2img_key m_B a_B"
    if "(m_A, a_A) \<noteq> (m_B, a_B)"
    using that by (simp add: txt2img_key_inj img2img_key_inj)
  have cross: "txt2img_key m a \<noteq> img2img_key m' a'" if "dict_contains (MODEL_CONFIGS e) m"
    for m a m' a'
    using that by (intro known_model_type_no_collision MODEL_CONFIGS_known)
  have cross_A: "txt2img_key m_A a_A \<noteq> img2img_key m_B a_B"
    if "dict_contains (MODEL_CONFIGS e) m_A"
    using that by (rule cross)
  have cross_B: "img2img_key m_A a_A \<noteq> txt2img_key m_B a_B"
    if "dict_contains (MODEL_CONFIGS e) m_B"
    using cross [OF that, of a_B m_A a_A] by (rule not_sym)
  show ?thesis
  proof (intro conjI impI)
    show "\<exists>h c. model_cache s' = [(key_B, (Some h, Some c))]"
      by (rule one)
    show "\<not> dict_contains (model_cache s') key_A"
      by (rule absent)
    show "cache_check key_A s' = ((None, None), s')"
      using absent by (rule cache_check_absent)
    show "loader_cache_check key_A s' = (None, s')"
      using absent by (rule loader_cache_check_absent)
  next
    assume "(m_A, a_A) \<noteq> (m_B, a_B)"
    then show "txt2img_key m_A a_A \<noteq> txt2img_key m_B a_B"
      and "img2img_key m_A a_A \<noteq> img2img_key m_B a_B"
      using keys by simp_all
  next
    assume "dict_contains (MODEL_CONFIGS e) m_A"
    then show "txt2img_key m_A a_A \<noteq> img2img_key m_B a_B"
      by (rule cross_A)
  next
    assume "dict_contains (MODEL_CONFIGS e) m_B"
    then show "img2img_key m_A a_A \<noteq> txt2img_key m_B a_B"
      by (rule cross_B)
  qed
qed

theorem single_slot_eviction_witness:
  "fst (HiDreamSampler_generate example_env ''full'' [] 0 ''Default for model'' False
          initial_state) = Inr (Generated 0)
   \<and> dict_contains (model_cache example_full_state) ''full_standard''
   \<and> \<not> dict_contains (model_cache example_full_state) ''dev_standard''
   \<and> dict_contains
        (model_cache (snd (HiDreamSamplerAdvanced_generate example_env ''dev'' [] 0
           ''Default for model'' False 1024 1024 1024 example_full_state))) ''dev_standard''
   \<and> \<not> dict_contains
        (model_cache (snd (HiDreamSamplerAdvanced_generate example_env ''dev'' [] 0
           ''Default for model'' False 1024 1024 1024 example_full_state))) ''full_standard''
   \<and> fst (cache_check ''full_standard''
        (snd (HiDreamSamplerAdvanced_generate example_env ''dev'' [] 0
           ''Default for model'' False 1024 1024 1024 example_full_state))) = (None, None)
   \<and> fst (loader_cache_check ''full_standard''
        (snd (HiDreamSamplerAdvanced_generate example_env ''dev'' [] 0
           ''Default for model'' False 1024 1024 1024 example_full_state))) = None"
proof -
  have key: "txt2img_key ''dev'' False = ''dev_standard''"
    by (simp add: txt2img_key_def llm_tag_def)
  from single_slot_eviction [where s = example_full_state and key_B = "''dev_standard''"
      and s' = "snd (HiDreamSamplerAdvanced_generate example_env ''dev'' [] 0
                  ''Default for model'' False 1024 1024 1024 example_full_state)"
      and e = example_env and m_B = "''dev''" and a_B = False and aspect_ratio = "[]"
      and seed = 0 and sched = "''Default for model''" and key_A = "''full_standard''"
      and square_resolution = 1024 and custom_width = 1024 and custom_height = 1024]
    example_full_cache example_full_result key example_dev_after_full
  show ?thesis
    by simp
qed

text \<open>
  When the lookup of \<^verbatim>\<open>HiDreamSampler.generate\<close> misses and the call of \<^verbatim>\<open>load_models\<close>
  inside the \<^verbatim>\<open>try\<close> raises, the method returns the blank image and the cache is empty.
\<close>

lemma HiDreamSampler_generate_load_failure:
  assumes "log_memory e = None" and "MODEL_CONFIGS e \<noteq> []" and "m \<noteq> ''error''"
    and "cache_check (txt2img_key m a) s = ((None, None), s1)"
    and "clear_cache_before_load e s1 = (None, s0)"
    and "load_models e m a s0 = (Inl err, s2)"
  shows "HiDreamSampler_generate e m ar seed sched a s = (zeros e 1 512 512 3, s2)"
    and "model_cache s2 = []"
proof -
  from assms(5) clear_cache_before_load_cache [of e s1] have "model_cache s0 = []"
    by simp
  with assms(6) load_models_cache_empty [of s0 e m a] show "model_cache s2 = []"
    by simp
  obtain w0 h0 where "parse_aspect_ratio (int_max_str_digits e) ar = (w0, h0)"
    by (cases "parse_aspect_ratio (int_max_str_digits e) ar")
  with assms show "HiDreamSampler_generate e m ar seed sched a s = (zeros e 1 512 512 3, s2)"
    by (cases "zeros e 1 512 512 3")
       (simp_all add: HiDreamSampler_generate_def load_and_cache_def return_blank_def Let_def)
qed

text \<open>
  C8. After \<^verbatim>\<open>HiDreamImg2Img.generate\<close> has run for the model type \<open>full\<close>, the cache holds the
  key \<open>full_img2img_standard\<close>, which is also the key that \<^verbatim>\<open>HiDreamSampler.generate\<close> builds
  for the model type \<open>full_img2img\<close>. That model type is not a key of \<^verbatim>\<open>MODEL_CONFIGS\<close>, and
  \<^verbatim>\<open>load_models\<close> raises \<^verbatim>\<open>ValueError\<close> for it. \<^verbatim>\<open>HiDreamSampler.generate\<close> finds the entry,
  skips the guarded load, and its second call of \<^verbatim>\<open>load_models\<close>, outside the \<^verbatim>\<open>try\<close>,
  raises: the exception leaves the method, and the cache still holds an entry under the
  requested key. \<^verbatim>\<open>HiDreamSamplerAdvanced.generate\<close>, which has no second call, returns an
  image there.
\<close>

theorem HiDreamSampler_generate_propagates_load_error:
  "fst (HiDreamImg2Img_generate example_env ''full'' 512 512 0 ''Default for model'' False
          initial_state) = Inr (Generated 0)
   \<and> dict_contains (model_cache example_img2img_state) ''full_img2img_standard''
   \<and> \<not> dict_contains (MODEL_CONFIGS example_env) ''full_img2img''
   \<and> fst (load_models example_env ''full_img2img'' False example_img2img_state)
       = Inl (ValueError ''Unknown or incompatible model_type: full_img2img'')
   \<and> fst (HiDreamSampler_generate example_env ''full_img2img'' [] 0 ''Default for model'' False
            example_img2img_state)
       = Inl (ValueError ''Unknown or incompatible model_type: full_img2img'')
   \<and> dict_contains
        (model_cache (snd (HiDreamSampler_generate example_env ''full_img2img'' [] 0
            ''Default for model'' False example_img2img_state)))
        (txt2img_key ''full_img2img'' False)
   \<and> fst (HiDreamSamplerAdvanced_generate example_env ''full_img2img'' [] 0 ''Default for model''
            False 1024 1024 1024 example_img2img_state)
       = Inr (Generated 0)"
  by (simp add: example_img2img_state_def node_defs example_defs parse_dimensions_def
        parse_dimensions_try_def parse_parenthesised_def)

text \<open>
  The run of the two calls, read off the theorem: the second call ends with the exception.
\<close>

theorem HiDreamSampler_generate_propagates_load_error_witness:
  "dict_contains (model_cache example_img2img_state) ''full_img2img_standard''
   \<and> fst (HiDreamSampler_generate example_env ''full_img2img'' [] 0 ''Default for model'' False
            example_img2img_state)
       = Inl (ValueError ''Unknown or incompatible model_type: full_img2img'')"
  using HiDreamSampler_generate_propagates_load_error by simp

section \<open>Properties of the string operations\<close>


















lemma replace_x_append: "replace_x (s @ t) = replace_x s @ replace_x t"
  by (simp add: replace_x_def)

section \<open>Properties of the resolution parsers\<close>










end
